theory Spec2Isabelle
  imports Complex_Main
begin

section \<open>Python values\<close>

text \<open>
  The carrier module \<^verbatim>\<open>smartship/carriers/posti.py\<close> handles untyped Python data:
  \<^verbatim>\<open>None\<close>, booleans, numbers, strings, lists and dictionaries with string keys. A
  dictionary is an association list in insertion order with distinct keys. A float is
  modelled by the real number it denotes; the module never computes with one, it only
  passes it on and tests it for truth.
\<close>

datatype pyval =
    PNone
  | PBool bool
  | PInt int
  | PFloat real
  | PStr string
  | PList "pyval list"
  | PDict "(string \<times> pyval) list"

text \<open>Python's truth test, as used by \<^verbatim>\<open>if x:\<close> and \<^verbatim>\<open>a and b\<close>.\<close>

fun truthy :: "pyval \<Rightarrow> bool" where
  "truthy PNone = False"
| "truthy (PBool b) = b"
| "truthy (PInt i) = (i \<noteq> 0)"
| "truthy (PFloat x) = (x \<noteq> 0)"
| "truthy (PStr s) = (s \<noteq> [])"
| "truthy (PList xs) = (xs \<noteq> [])"
| "truthy (PDict d) = (d \<noteq> [])"

subsection \<open>Dictionaries\<close>

text \<open>\<^verbatim>\<open>d[k] = v\<close>: an existing key keeps its position, a new key goes to the end.\<close>

fun dict_set :: "string \<Rightarrow> 'v \<Rightarrow> (string \<times> 'v) list \<Rightarrow> (string \<times> 'v) list" where
  "dict_set k v [] = [(k, v)]"
| "dict_set k v ((k', v') # d) =
     (if k' = k then (k, v) # d else (k', v') # dict_set k v d)"

text \<open>\<^verbatim>\<open>d.pop(k)\<close> for a key that is present (the value popped is not used).\<close>

fun dict_pop :: "string \<Rightarrow> (string \<times> 'v) list \<Rightarrow> (string \<times> 'v) list" where
  "dict_pop k [] = []"
| "dict_pop k ((k', v') # d) = (if k' = k then d else (k', v') # dict_pop k d)"

definition dict_keys :: "(string \<times> 'v) list \<Rightarrow> string list" where
  "dict_keys d = map fst d"

section \<open>Errors, value objects and the trace of calls\<close>

text \<open>
  The classes of \<^verbatim>\<open>smartship.objects\<close> that the module imports, and the two subclasses
  it declares itself (\<^verbatim>\<open>MobileReceiver\<close>, \<^verbatim>\<open>WeightedParcels\<close>).
\<close>

datatype obj_class =
    Sender | SenderPartners | Receiver | MobileReceiver | Parcels | WeightedParcels
  | Service | Agent | PDFConfig | Locations

datatype error =
    ValueError string
  | ValidationError obj_class
  | IndexError
  | KeyError pyval
  | TypeError
  | AttributeError
  | HTTPError nat
  | JSONDecodeError
  | RequestException

datatype obj = Obj (class_of: obj_class) (data_of: pyval)

text \<open>
  What leaves the module: the constructor calls on value objects and the HTTP requests,
  in the order in which they are made.
\<close>

datatype call =
    Construct obj_class pyval
  | HttpGet string "(string \<times> pyval) list"

type_synonym 'a traced = "(error + 'a) \<times> call list"

definition lift :: "error + 'a \<Rightarrow> 'a traced" where
  "lift r = (r, [])"

definition returns :: "'a \<Rightarrow> 'a traced" where
  "returns x = (Inr x, [])"

definition raises :: "error \<Rightarrow> 'a traced" where
  "raises e = (Inl e, [])"

text \<open>Sequencing: an exception ends the computation, the trace made so far is kept.\<close>

definition and_then :: "'a traced \<Rightarrow> ('a \<Rightarrow> 'b traced) \<Rightarrow> 'b traced" where
  "and_then m f =
     (case m of
        (Inl e, tr) \<Rightarrow> (Inl e, tr)
      | (Inr x, tr) \<Rightarrow> (case f x of (r, tr') \<Rightarrow> (r, tr @ tr')))"

text \<open>
  Modelled from the spec: the value objects of \<^verbatim>\<open>smartship.objects\<close>, which is not
  among the sources. The spec describes them as ``dictionary-like value objects with
  declarative schema validation'', ``raising a validation error when construction data
  fails''. The schema check of each class is the parameter \<open>valid\<close>.
\<close>

type_synonym validator = "obj_class \<Rightarrow> pyval \<Rightarrow> bool"

definition construct :: "validator \<Rightarrow> obj_class \<Rightarrow> pyval \<Rightarrow> obj traced" where
  "construct valid cls d =
     ((if valid cls d then Inr (Obj cls d) else Inl (ValidationError cls)),
      [Construct cls d])"

text \<open>
  Modelled from the spec: item assignment \<^verbatim>\<open>o[k] = v\<close> on a dictionary-like value
  object stores the entry in the object's data.
\<close>

definition obj_setitem :: "obj \<Rightarrow> string \<Rightarrow> pyval \<Rightarrow> obj traced" where
  "obj_setitem ob k v =
     (case data_of ob of
        PDict d \<Rightarrow> returns (Obj (class_of ob) (PDict (dict_set k v d)))
      | _ \<Rightarrow> raises TypeError)"

subsection \<open>Subscripting\<close>

text \<open>
  \<^verbatim>\<open>v[i]\<close> for the constant indices \<open>0\<close> to \<open>3\<close> that the module uses: a list or a
  string shorter than the index raises \<^verbatim>\<open>IndexError\<close>, a dictionary (whose keys are
  strings here) has no such key, and the other values cannot be subscripted.
\<close>

definition getitem :: "pyval \<Rightarrow> nat \<Rightarrow> error + pyval" where
  "getitem v i =
     (case v of
        PList xs \<Rightarrow> if i < length xs then Inr (xs ! i) else Inl IndexError
      | PStr s \<Rightarrow> if i < length s then Inr (PStr [s ! i]) else Inl IndexError
      | PDict d \<Rightarrow> Inl (KeyError (PInt (int i)))
      | _ \<Rightarrow> Inl TypeError)"

text \<open>\<^verbatim>\<open>v[k]\<close> for a string key: only a dictionary can answer.\<close>

definition getitem_key :: "pyval \<Rightarrow> string \<Rightarrow> error + pyval" where
  "getitem_key v k =
     (case v of
        PDict d \<Rightarrow> (case map_of d k of None \<Rightarrow> Inl (KeyError (PStr k)) | Some x \<Rightarrow> Inr x)
      | _ \<Rightarrow> Inl TypeError)"

section \<open>The service registry\<close>

definition CARRIER_CODE :: string where
  "CARRIER_CODE = ''POSTI''"

definition SERVICES :: "(string \<times> string) list" where
  "SERVICES =
    [(''PO2017'', ''Posti - EMS''),
     (''PO2017D'', ''Posti - EMS DocPack''),
     (''ITKY14I'', ''Posti - Express Business Day pallet (Ulkomaa)''),
     (''IT14I'', ''Posti - Express Business Day parcel (Ulkomaa)''),
     (''PO2102'', ''Posti - Express-paketti''),
     (''PO2144'', ''Posti - Express-rahti''),
     (''PO2104'', ''Posti - Kotipaketti''),
     (''PO5041'', ''Posti - N'' @ [CHR 0xE4] @ ''ytel'' @ [CHR 0xE4] @ ''hetys''),
     (''PO2108'', ''Posti - Palautus''),
     (''PO2711'', ''Posti - Parcel Connect''),
     (''PO2718'', ''Posti - Parcel Return Connect''),
     (''PO2461'', ''Posti - Pikkupaketti''),
     (''PO2103'', ''Posti - Postipaketti''),
     (''ITPR'', ''Posti - Priority Parcel''),
     (''PO2106'', ''Posti - SmartPOST Viro'')]"

definition NATIONAL_SERVICE_KEYS :: "string list" where
  "NATIONAL_SERVICE_KEYS =
    [''ITPR'', ''PO2102'', ''PO2103'', ''PO2104'', ''PO2108'', ''PO2144'', ''PO2461'',
     ''PO5041'']"

definition NATIONAL_SERVICES :: "(string \<times> string) list" where
  "NATIONAL_SERVICES =
     filter (\<lambda>(key, description). key \<in> set NATIONAL_SERVICE_KEYS) SERVICES"

section \<open>The shipment builder\<close>

text \<open>
  The helpers keep the names of the source without its leading underscore, which an
  Isabelle name cannot start with. The service code is a string, as the docstring of
  \<^verbatim>\<open>create_shipment\<close> declares it; the other arguments are Python values. Every function
  that constructs a value object takes the schema check \<open>valid\<close> as its first argument.
\<close>

definition validate_create_shipment :: "string \<Rightarrow> unit traced" where
  "validate_create_shipment service_id =
     (if service_id \<notin> set (dict_keys SERVICES)
      then raises (ValueError ''Invalid 'service_id'.'')
      else returns ())"

definition infer_receiver_class :: "string \<Rightarrow> pyval \<Rightarrow> obj_class" where
  "infer_receiver_class service_id agent =
     (if service_id = ''PO2104'' then MobileReceiver
      else if service_id = ''PO2103'' \<and> truthy agent then MobileReceiver
      else Receiver)"

definition infer_parcels_class :: "string \<Rightarrow> obj_class" where
  "infer_parcels_class service_id =
     (if service_id = ''PO5041'' then WeightedParcels else Parcels)"

definition build_service :: "validator \<Rightarrow> pyval \<Rightarrow> string \<Rightarrow> obj traced" where
  "build_service valid addons service_id =
     and_then (construct valid Service (PDict [(''id'', PStr service_id)])) (\<lambda>service.
       if truthy addons then obj_setitem service ''addons'' addons
       else returns service)"

text \<open>A keyword argument of \<^verbatim>\<open>Shipment\<close> is a value object or a plain value.\<close>

datatype field = Object obj | Plain pyval

text \<open>
  Modelled from the spec: the shipment request, an instance of
  \<^verbatim>\<open>smartship.shipments.Shipment\<close>, which is not among the sources. The spec describes it
  as ``a composite structured value with required fields'' and ``optional fields''; it
  is the keyword arguments that \<^verbatim>\<open>create_shipment\<close> hands to \<^verbatim>\<open>Shipment\<close>, as they are.
\<close>

datatype shipment = Shipment (kwargs: "(string \<times> field) list")

definition create_shipment ::
  "validator \<Rightarrow> pyval \<Rightarrow> string \<Rightarrow> pyval \<Rightarrow> pyval \<Rightarrow> pyval \<Rightarrow>
   pyval \<Rightarrow> pyval \<Rightarrow> pyval \<Rightarrow> pyval \<Rightarrow> pyval \<Rightarrow> shipment traced" where
  "create_shipment valid custno service_id receiver sender parcels
     agent order_no sender_reference pdf_config addons =
   and_then (validate_create_shipment service_id) (\<lambda>_.
   let receiver_class = infer_receiver_class service_id agent;
       parcels_class = infer_parcels_class service_id
   in
   and_then (construct valid Sender sender) (\<lambda>o_sender.
   and_then (construct valid SenderPartners
               (PList [PDict [(''id'', PStr CARRIER_CODE), (''custNo'', custno)]]))
     (\<lambda>o_partners.
   and_then (construct valid receiver_class receiver) (\<lambda>o_receiver.
   and_then (construct valid parcels_class parcels) (\<lambda>o_parcels.
   and_then (build_service valid addons service_id) (\<lambda>o_service.
   let kwargs0 =
         [(''sender'', Object o_sender),
          (''senderPartners'', Object o_partners),
          (''receiver'', Object o_receiver),
          (''parcels'', Object o_parcels),
          (''service'', Object o_service)]
   in
   and_then (if truthy agent
             then and_then (construct valid Agent agent) (\<lambda>o_agent.
                    returns (dict_set ''agent'' (Object o_agent) kwargs0))
             else returns kwargs0) (\<lambda>kwargs1.
   let kwargs2 = (if truthy order_no
                  then dict_set ''orderNo'' (Plain order_no) kwargs1 else kwargs1);
       kwargs3 = (if truthy sender_reference
                  then dict_set ''senderReference'' (Plain sender_reference) kwargs2
                  else kwargs2)
   in
   and_then (if truthy pdf_config
             then and_then (construct valid PDFConfig pdf_config) (\<lambda>o_pdf.
                    returns (dict_set ''pdfConfig'' (Object o_pdf) kwargs3))
             else returns kwargs3) (\<lambda>kwargs4.
   returns (Shipment kwargs4)))))))))"

section \<open>The schema of weighted parcels\<close>

text \<open>
  \<^verbatim>\<open>WeightedParcels.schema\<close> is a deep copy of \<^verbatim>\<open>Parcels.schema\<close> (a JSON schema, a
  dictionary; it is defined in \<^verbatim>\<open>smartship.objects\<close> and is a parameter here) in which
  \<^verbatim>\<open>"weight"\<close> is appended to \<^verbatim>\<open>schema["items"]["required"]\<close>. Values are immutable
  in the model, so the copy is the value itself and the update rebuilds the two enclosing
  dictionaries.
\<close>

definition items_required :: "pyval \<Rightarrow> error + pyval" where
  "items_required schema =
     (case getitem_key schema ''items'' of
        Inl e \<Rightarrow> Inl e
      | Inr items \<Rightarrow> getitem_key items ''required'')"

definition WeightedParcels_schema :: "pyval \<Rightarrow> error + pyval" where
  "WeightedParcels_schema Parcels_schema =
     (case getitem_key Parcels_schema ''items'' of
        Inl e \<Rightarrow> Inl e
      | Inr items \<Rightarrow>
          (case getitem_key items ''required'' of
             Inl e \<Rightarrow> Inl e
           | Inr (PList required) \<Rightarrow>
               (case (Parcels_schema, items) of
                  (PDict schema_d, PDict items_d) \<Rightarrow>
                    Inr (PDict (dict_set ''items''
                          (PDict (dict_set ''required''
                             (PList (required @ [PStr ''weight''])) items_d)) schema_d))
                | _ \<Rightarrow> Inl TypeError)
           | Inr _ \<Rightarrow> Inl AttributeError))"

section \<open>The location query\<close>

text \<open>
  The keyword arguments of \<^verbatim>\<open>get_locations\<close>, all optional with default \<^verbatim>\<open>None\<close>.
  The argument \<^verbatim>\<open>top\<close> is the field \<open>top_param\<close>, since \<open>top\<close> is a constant of HOL.
\<close>

record locations_args =
  country_code :: pyval
  top_param :: pyval
  types :: pyval
  lattitude :: pyval
  longitude :: pyval
  distance :: pyval
  bounding_box :: pyval
  zipcode :: pyval
  location_zipcode :: pyval
  strict_zip_code :: pyval
  city :: pyval
  municipality :: pyval
  pup_code :: pyval
  partner_type :: pyval

text \<open>The call \<^verbatim>\<open>get_locations()\<close>: every argument has its default.\<close>

definition no_args :: locations_args where
  "no_args =
     \<lparr>country_code = PNone, top_param = PNone, types = PNone, lattitude = PNone,
      longitude = PNone, distance = PNone, bounding_box = PNone, zipcode = PNone,
      location_zipcode = PNone, strict_zip_code = PNone, city = PNone,
      municipality = PNone, pup_code = PNone, partner_type = PNone\<rparr>"

definition LOCATION_SERVICE_API_ENDPOINT :: string where
  "LOCATION_SERVICE_API_ENDPOINT = ''https://locationservice.posti.com/location''"

type_synonym params = "(string \<times> pyval) list"

text \<open>The dictionary literal that opens the function body.\<close>

definition initial_params :: "locations_args \<Rightarrow> params" where
  "initial_params a =
     [(''countryCode'', country_code a),
      (''top'', top_param a),
      (''types'', types a),
      (''lat'', lattitude a),
      (''lng'', longitude a),
      (''distance'', distance a),
      (''zipCode'', zipcode a),
      (''locationZipCode'', location_zipcode a),
      (''strictZipCode'', if truthy (strict_zip_code a) then PStr ''true'' else PNone),
      (''city'', city a),
      (''municipality'', municipality a),
      (''pupCode'', pup_code a),
      (''partnerType'', partner_type a)]"

text \<open>The four assignments under \<^verbatim>\<open>if bounding_box is not None\<close>.\<close>

definition expand_bounding_box :: "pyval \<Rightarrow> params \<Rightarrow> params traced" where
  "expand_bounding_box bbox params0 =
     (if bbox \<noteq> PNone then
        and_then (lift (getitem bbox 0)) (\<lambda>b0.
        let params1 = dict_set ''topLeftLat'' b0 params0 in
        and_then (lift (getitem bbox 1)) (\<lambda>b1.
        let params2 = dict_set ''topLeftLng'' b1 params1 in
        and_then (lift (getitem bbox 2)) (\<lambda>b2.
        let params3 = dict_set ''bottomRightLat'' b2 params2 in
        and_then (lift (getitem bbox 3)) (\<lambda>b3.
        returns (dict_set ''bottomRightLng'' b3 params3)))))
      else returns params0)"

text \<open>
  The loop \<^verbatim>\<open>for key, value in list(params.items())\<close>: it runs over a snapshot of the
  entries and pops from the dictionary every key whose value is \<^verbatim>\<open>None\<close>.
\<close>

definition drop_none :: "params \<Rightarrow> params" where
  "drop_none params =
     fold (\<lambda>(key, val) p. if val = PNone then dict_pop key p else p) params params"

text \<open>
  Modelled from the spec: the HTTP transport (the \<^verbatim>\<open>requests\<close> library), ``a generic
  HTTP client supporting GET with query parameters and raising on non-2xx responses'',
  which exposes ``a response with a JSON body and a status-check that fails on
  non-2xx''. The network is the parameter \<open>http\<close>: it answers a GET with a response or
  fails with an error of its own.
\<close>

record response =
  status_code :: nat
  json_body :: "pyval option"

type_synonym transport = "string \<Rightarrow> params \<Rightarrow> error + response"

text \<open>
  Modelled from the spec: \<^verbatim>\<open>requests.get(url, params=params)\<close>, a GET with a
  query-parameter mapping. The request is recorded in the trace with the mapping it was
  given.
\<close>

definition requests_get :: "transport \<Rightarrow> string \<Rightarrow> params \<Rightarrow> response traced" where
  "requests_get http url params = (http url params, [HttpGet url params])"

text \<open>
  Modelled from the spec: the status check of the response, ``a status-check that fails
  on non-2xx''.
\<close>

definition raise_for_status :: "response \<Rightarrow> unit traced" where
  "raise_for_status r =
     (if 200 \<le> status_code r \<and> status_code r < 300 then returns ()
      else raises (HTTPError (status_code r)))"

text \<open>
  Modelled from the spec: the JSON body of the response; a body that is not JSON raises.
\<close>

definition response_json :: "response \<Rightarrow> pyval traced" where
  "response_json r =
     (case json_body r of None \<Rightarrow> raises JSONDecodeError | Some v \<Rightarrow> returns v)"

definition get_locations :: "transport \<Rightarrow> validator \<Rightarrow> locations_args \<Rightarrow> obj traced" where
  "get_locations http valid a =
     and_then (expand_bounding_box (bounding_box a) (initial_params a)) (\<lambda>params1.
     let params = drop_none params1 in
     and_then (requests_get http LOCATION_SERVICE_API_ENDPOINT params) (\<lambda>response.
     and_then (raise_for_status response) (\<lambda>_.
     and_then (response_json response) (\<lambda>body.
     and_then (lift (getitem_key body ''locations'')) (\<lambda>locations.
     construct valid Locations locations)))))"

text \<open>The HTTP requests of a trace, each with its URL and query parameters.\<close>

fun http_requests :: "call list \<Rightarrow> (string \<times> params) list" where
  "http_requests [] = []"
| "http_requests (HttpGet url ps # tr) = (url, ps) # http_requests tr"
| "http_requests (Construct cls d # tr) = http_requests tr"

text \<open>The constructor calls of a trace.\<close>

fun constructions :: "call list \<Rightarrow> (obj_class \<times> pyval) list" where
  "constructions [] = []"
| "constructions (Construct cls d # tr) = (cls, d) # constructions tr"
| "constructions (HttpGet url ps # tr) = constructions tr"

text \<open>
  Collaborators to run the model with: a schema check that accepts everything, and a
  network that cannot be reached.
\<close>

definition accept_all :: validator where
  "accept_all cls d = True"

definition unreachable :: transport where
  "unreachable url ps = Inl RequestException"

text \<open>A network on which every request is answered with the response \<open>r\<close>.\<close>

definition answers :: "response \<Rightarrow> transport" where
  "answers r url ps = Inr r"

section \<open>Running traced computations\<close>

lemma and_then_raises: "and_then (raises e) f = raises e"
  by (simp add: and_then_def raises_def)

lemma and_then_returns: "and_then (returns x) f = f x"
  by (simp add: and_then_def returns_def split: prod.splits)

lemma and_then_construct:
  "and_then (construct valid cls d) f =
     (if valid cls d then apsnd ((#) (Construct cls d)) (f (Obj cls d))
      else (Inl (ValidationError cls), [Construct cls d]))"
  by (simp add: and_then_def construct_def apsnd_def map_prod_def split: prod.splits)

lemma and_then_Inr_iff:
  "and_then m f = (Inr y, tr) \<longleftrightarrow>
     (\<exists>x tr1 tr2. m = (Inr x, tr1) \<and> f x = (Inr y, tr2) \<and> tr = tr1 @ tr2)"
  by (cases m; cases "fst m") (auto simp: and_then_def split: prod.splits)

lemma construct_Inr_iff:
  "construct valid cls d = (Inr x, tr) \<longleftrightarrow>
     valid cls d \<and> x = Obj cls d \<and> tr = [Construct cls d]"
  by (auto simp: construct_def)

lemma returns_Inr_iff: "returns x = (Inr y, tr) \<longleftrightarrow> y = x \<and> tr = []"
  by (auto simp: returns_def)

lemma raises_Inr_iff: "raises e \<noteq> (Inr y, tr)"
  by (auto simp: raises_def)

section \<open>Properties of the shipment builder\<close>

lemma build_service_Inr_iff:
  "build_service valid addons service_id = (Inr s, tr) \<longleftrightarrow>
   valid Service (PDict [(''id'', PStr service_id)]) \<and>
   tr = [Construct Service (PDict [(''id'', PStr service_id)])] \<and>
   s = Obj Service (PDict (if truthy addons then [(''id'', PStr service_id), (''addons'', addons)]
         else [(''id'', PStr service_id)]))"
  by (auto simp: build_service_def and_then_Inr_iff construct_Inr_iff returns_Inr_iff obj_setitem_def split: if_splits)


lemmas traced_eval = and_then_def construct_def returns_def raises_def lift_def

lemmas shipment_eval =
  create_shipment_def validate_create_shipment_def dict_keys_def SERVICES_def
  infer_receiver_class_def infer_parcels_class_def build_service_def obj_setitem_def
  CARRIER_CODE_def traced_eval

lemma create_shipment_Inr:
  assumes "create_shipment valid custno service_id receiver sender parcels
     agent order_no sender_reference pdf_config addons = (Inr sh, tr)"
  shows "kwargs sh =
     [(''sender'', Object (Obj Sender sender)),
      (''senderPartners'', Object (Obj SenderPartners
         (PList [PDict [(''id'', PStr ''POSTI''), (''custNo'', custno)]]))),
      (''receiver'', Object (Obj (infer_receiver_class service_id agent) receiver)),
      (''parcels'', Object (Obj (infer_parcels_class service_id) parcels)),
      (''service'', Object (Obj Service (PDict ([(''id'', PStr service_id)] @
          (if truthy addons then [(''addons'', addons)] else [])))))]
     @ (if truthy agent then [(''agent'', Object (Obj Agent agent))] else [])
     @ (if truthy order_no then [(''orderNo'', Plain order_no)] else [])
     @ (if truthy sender_reference then [(''senderReference'', Plain sender_reference)] else [])
     @ (if truthy pdf_config then [(''pdfConfig'', Object (Obj PDFConfig pdf_config))] else [])"
  using assms
  by (auto simp: create_shipment_def Let_def and_then_Inr_iff construct_Inr_iff returns_Inr_iff 
       build_service_Inr_iff CARRIER_CODE_def validate_create_shipment_def raises_Inr_iff split: if_splits)

lemma create_shipment_trace4:
  assumes "service_id \<in> set (dict_keys SERVICES)" "valid Sender sender"
    "valid SenderPartners (PList [PDict [(''id'', PStr ''POSTI''), (''custNo'', custno)]])"
  shows "take 3 (constructions (snd (create_shipment valid custno service_id receiver sender parcels
     agent order_no sender_reference pdf_config addons))) =
    [(Sender, sender), (SenderPartners, PList [PDict [(''id'', PStr ''POSTI''), (''custNo'', custno)]]),
     (infer_receiver_class service_id agent, receiver)]"
   and "valid (infer_receiver_class service_id agent) receiver \<Longrightarrow>
     take 4 (constructions (snd (create_shipment valid custno service_id receiver sender parcels
     agent order_no sender_reference pdf_config addons))) =
    [(Sender, sender), (SenderPartners, PList [PDict [(''id'', PStr ''POSTI''), (''custNo'', custno)]]),
     (infer_receiver_class service_id agent, receiver), (infer_parcels_class service_id, parcels)]"
  using assms
  by (simp_all add: create_shipment_def Let_def validate_create_shipment_def and_then_returns
        and_then_construct CARRIER_CODE_def)

text \<open>
  Claim C1. For a service code of the registry, the receiver class is \<open>MobileReceiver\<close>
  exactly when the code is \<^verbatim>\<open>PO2104\<close>, or is \<^verbatim>\<open>PO2103\<close> with a truthy agent, and is
  \<open>Receiver\<close> otherwise. This is the class that \<open>create_shipment\<close> wraps the receiver
  data in: the receiver of a shipment it returns has that class, and the third
  constructor call it makes (after the sender and the sender partners) is of that class
  on the receiver data.
\<close>

theorem create_shipment_receiver_variant:
  assumes "service_id \<in> set (dict_keys SERVICES)"
  shows "infer_receiver_class service_id agent =
           (if service_id = ''PO2104'' \<or> (service_id = ''PO2103'' \<and> truthy agent)
            then MobileReceiver else Receiver)
       \<and> (\<forall>sh tr. create_shipment valid custno service_id receiver sender parcels
              agent order_no sender_reference pdf_config addons = (Inr sh, tr) \<longrightarrow>
            map_of (kwargs sh) ''receiver'' =
              Some (Object (Obj (infer_receiver_class service_id agent) receiver)))
       \<and> (valid Sender sender \<and>
          valid SenderPartners (PList [PDict [(''id'', PStr ''POSTI''), (''custNo'', custno)]]) \<longrightarrow>
            constructions (snd (create_shipment valid custno service_id receiver sender parcels
              agent order_no sender_reference pdf_config addons)) ! 2 =
              (infer_receiver_class service_id agent, receiver))"
proof (intro conjI allI impI)
  show "infer_receiver_class service_id agent =
           (if service_id = ''PO2104'' \<or> (service_id = ''PO2103'' \<and> truthy agent)
            then MobileReceiver else Receiver)"
    by (simp add: infer_receiver_class_def)
next
  fix sh tr
  assume "create_shipment valid custno service_id receiver sender parcels
              agent order_no sender_reference pdf_config addons = (Inr sh, tr)"
  from create_shipment_Inr [OF this]
  show "map_of (kwargs sh) ''receiver'' =
              Some (Object (Obj (infer_receiver_class service_id agent) receiver))"
    by simp
next
  assume v: "valid Sender sender \<and>
          valid SenderPartners (PList [PDict [(''id'', PStr ''POSTI''), (''custNo'', custno)]])"
  let ?cs = "constructions (snd (create_shipment valid custno service_id receiver sender parcels
              agent order_no sender_reference pdf_config addons))"
  have "take 3 ?cs ! 2 = (infer_receiver_class service_id agent, receiver)"
    using create_shipment_trace4(1) [OF assms, of valid sender custno] v by simp
  then show "?cs ! 2 = (infer_receiver_class service_id agent, receiver)"
    by simp
qed

theorem create_shipment_receiver_variant_witness:
  "''PO2103'' \<in> set (dict_keys SERVICES)
   \<and> infer_receiver_class ''PO2103'' (PDict [(''quickId'', PStr ''7'')]) = MobileReceiver
   \<and> infer_receiver_class ''PO2103'' PNone = Receiver
   \<and> create_shipment accept_all (PStr ''12345'') ''PO2103'' (PDict [(''quickId'', PStr ''2'')])
        (PDict [(''quickId'', PStr ''1'')]) (PList [PDict [(''copies'', PInt 1)]])
        (PDict [(''quickId'', PStr ''7'')]) PNone PNone PNone PNone =
      (Inr (Shipment
         [(''sender'', Object (Obj Sender (PDict [(''quickId'', PStr ''1'')]))),
          (''senderPartners'', Object (Obj SenderPartners
             (PList [PDict [(''id'', PStr ''POSTI''), (''custNo'', PStr ''12345'')]]))),
          (''receiver'', Object (Obj MobileReceiver (PDict [(''quickId'', PStr ''2'')]))),
          (''parcels'', Object (Obj Parcels (PList [PDict [(''copies'', PInt 1)]]))),
          (''service'', Object (Obj Service (PDict [(''id'', PStr ''PO2103'')]))),
          (''agent'', Object (Obj Agent (PDict [(''quickId'', PStr ''7'')])))]),
       [Construct Sender (PDict [(''quickId'', PStr ''1'')]),
        Construct SenderPartners
          (PList [PDict [(''id'', PStr ''POSTI''), (''custNo'', PStr ''12345'')]]),
        Construct MobileReceiver (PDict [(''quickId'', PStr ''2'')]),
        Construct Parcels (PList [PDict [(''copies'', PInt 1)]]),
        Construct Service (PDict [(''id'', PStr ''PO2103'')]),
        Construct Agent (PDict [(''quickId'', PStr ''7'')])])
   \<and> accept_all Sender (PDict [(''quickId'', PStr ''1'')])
   \<and> accept_all SenderPartners (PList [PDict [(''id'', PStr ''POSTI''), (''custNo'', PStr ''12345'')]])
   \<and> constructions (snd (create_shipment accept_all (PStr ''12345'') ''PO2103''
        (PDict [(''quickId'', PStr ''2'')])
        (PDict [(''quickId'', PStr ''1'')]) (PList [PDict [(''copies'', PInt 1)]])
        (PDict [(''quickId'', PStr ''7'')]) PNone PNone PNone PNone)) ! 2 =
      (MobileReceiver, PDict [(''quickId'', PStr ''2'')])"
  using create_shipment_receiver_variant [of "''PO2103''" "PDict [(''quickId'', PStr ''7'')]"
      accept_all "PStr ''12345''" "PDict [(''quickId'', PStr ''2'')]"
      "PDict [(''quickId'', PStr ''1'')]" "PList [PDict [(''copies'', PInt 1)]]" PNone PNone PNone PNone]
  by (simp add: shipment_eval accept_all_def)

text \<open>
  Claim C2. For a service code that is not a key of \<open>SERVICES\<close>, \<open>create_shipment\<close>
  raises \<^verbatim>\<open>ValueError("Invalid 'service_id'.")\<close> and its trace is empty: no constructor
  of a value object has been called, whatever the schema checks would have answered.
\<close>

theorem create_shipment_unknown_service:
  assumes "service_id \<notin> set (dict_keys SERVICES)"
  shows "create_shipment valid custno service_id receiver sender parcels
           agent order_no sender_reference pdf_config addons =
         (Inl (ValueError ''Invalid 'service_id'.''), [])"
  using assms
  by (simp add: create_shipment_def validate_create_shipment_def and_then_raises)
     (simp add: raises_def)

theorem create_shipment_unknown_service_witness:
  "''PO9999'' \<notin> set (dict_keys SERVICES)
   \<and> create_shipment accept_all (PStr ''12345'') ''PO9999'' (PDict [(''quickId'', PStr ''2'')])
        (PDict [(''quickId'', PStr ''1'')]) (PList [PDict [(''copies'', PInt 1)]])
        PNone PNone PNone PNone PNone =
      (Inl (ValueError ''Invalid 'service_id'.''), [])"
proof -
  have h: "''PO9999'' \<notin> set (dict_keys SERVICES)"
    by (simp add: dict_keys_def SERVICES_def)
  from h create_shipment_unknown_service [OF h] show ?thesis by simp
qed


lemma map_of_dict_set_same: "map_of (dict_set k v d) k = Some v"
  by (induction d) auto

text \<open>
  The derived schema requires what the base schema requires of a parcel entry, and
  \<^verbatim>\<open>"weight"\<close> after it.
\<close>

lemma WeightedParcels_schema_required:
  assumes "items_required Parcels_schema = Inr (PList required)"
  shows "\<exists>schema. WeightedParcels_schema Parcels_schema = Inr schema \<and>
           items_required schema = Inr (PList (required @ [PStr ''weight'']))"
proof -
  from assms obtain sd itd where
    sd: "Parcels_schema = PDict sd" and
    itd: "map_of sd ''items'' = Some (PDict itd)" and
    req: "map_of itd ''required'' = Some (PList required)"
    by (auto simp: items_required_def getitem_key_def
          split: pyval.splits option.splits sum.splits)
  let ?schema = "PDict (dict_set ''items''
      (PDict (dict_set ''required'' (PList (required @ [PStr ''weight''])) itd)) sd)"
  have "WeightedParcels_schema Parcels_schema = Inr ?schema"
    using sd itd req by (simp add: WeightedParcels_schema_def getitem_key_def)
  moreover have "items_required ?schema = Inr (PList (required @ [PStr ''weight'']))"
    by (simp add: items_required_def getitem_key_def map_of_dict_set_same)
  ultimately show ?thesis by blast
qed

text \<open>
  Claim C3. For a service code of the registry, the parcels class is \<open>WeightedParcels\<close>
  exactly when the code is \<^verbatim>\<open>PO5041\<close>, and \<open>Parcels\<close> for every other code. This is the
  class that \<open>create_shipment\<close> wraps the parcel list in: the parcels of a shipment it
  returns have that class, and its fourth constructor call is of that class on the parcel
  list. The schema of \<open>WeightedParcels\<close> lists \<^verbatim>\<open>"weight"\<close> among the required fields of
  a parcel entry, in addition to those of \<open>Parcels\<close>.
\<close>

theorem create_shipment_parcels_variant:
  assumes "service_id \<in> set (dict_keys SERVICES)"
  shows "infer_parcels_class service_id =
           (if service_id = ''PO5041'' then WeightedParcels else Parcels)
       \<and> (\<forall>sh tr. create_shipment valid custno service_id receiver sender parcels
              agent order_no sender_reference pdf_config addons = (Inr sh, tr) \<longrightarrow>
            map_of (kwargs sh) ''parcels'' =
              Some (Object (Obj (infer_parcels_class service_id) parcels)))
       \<and> (valid Sender sender \<and>
          valid SenderPartners (PList [PDict [(''id'', PStr ''POSTI''), (''custNo'', custno)]]) \<and>
          valid (infer_receiver_class service_id agent) receiver \<longrightarrow>
            constructions (snd (create_shipment valid custno service_id receiver sender parcels
              agent order_no sender_reference pdf_config addons)) ! 3 =
              (infer_parcels_class service_id, parcels))
       \<and> (\<forall>required. items_required Parcels_schema = Inr (PList required) \<longrightarrow>
            (\<exists>schema. WeightedParcels_schema Parcels_schema = Inr schema \<and>
               items_required schema = Inr (PList (required @ [PStr ''weight'']))))"
proof (intro conjI allI impI)
  show "infer_parcels_class service_id =
           (if service_id = ''PO5041'' then WeightedParcels else Parcels)"
    by (simp add: infer_parcels_class_def)
next
  fix sh tr
  assume "create_shipment valid custno service_id receiver sender parcels
              agent order_no sender_reference pdf_config addons = (Inr sh, tr)"
  from create_shipment_Inr [OF this]
  show "map_of (kwargs sh) ''parcels'' =
              Some (Object (Obj (infer_parcels_class service_id) parcels))"
    by simp
next
  assume v: "valid Sender sender \<and>
          valid SenderPartners (PList [PDict [(''id'', PStr ''POSTI''), (''custNo'', custno)]]) \<and>
          valid (infer_receiver_class service_id agent) receiver"
  let ?cs = "constructions (snd (create_shipment valid custno service_id receiver sender parcels
              agent order_no sender_reference pdf_config addons))"
  have "take 4 ?cs ! 3 = (infer_parcels_class service_id, parcels)"
    using create_shipment_trace4(2) [OF assms, of valid sender custno agent receiver] v by simp
  then show "?cs ! 3 = (infer_parcels_class service_id, parcels)"
    by simp
next
  fix required
  assume "items_required Parcels_schema = Inr (PList required)"
  then show "\<exists>schema. WeightedParcels_schema Parcels_schema = Inr schema \<and>
               items_required schema = Inr (PList (required @ [PStr ''weight'']))"
    by (rule WeightedParcels_schema_required)
qed

theorem create_shipment_parcels_variant_witness:
  "''PO5041'' \<in> set (dict_keys SERVICES)
   \<and> infer_parcels_class ''PO5041'' = WeightedParcels
   \<and> create_shipment accept_all (PStr ''12345'') ''PO5041'' (PDict [(''quickId'', PStr ''2'')])
        (PDict [(''quickId'', PStr ''1'')])
        (PList [PDict [(''copies'', PInt 1), (''weight'', PInt 3)]])
        PNone PNone PNone PNone PNone =
      (Inr (Shipment
         [(''sender'', Object (Obj Sender (PDict [(''quickId'', PStr ''1'')]))),
          (''senderPartners'', Object (Obj SenderPartners
             (PList [PDict [(''id'', PStr ''POSTI''), (''custNo'', PStr ''12345'')]]))),
          (''receiver'', Object (Obj Receiver (PDict [(''quickId'', PStr ''2'')]))),
          (''parcels'', Object (Obj WeightedParcels
             (PList [PDict [(''copies'', PInt 1), (''weight'', PInt 3)]]))),
          (''service'', Object (Obj Service (PDict [(''id'', PStr ''PO5041'')])))]),
       [Construct Sender (PDict [(''quickId'', PStr ''1'')]),
        Construct SenderPartners
          (PList [PDict [(''id'', PStr ''POSTI''), (''custNo'', PStr ''12345'')]]),
        Construct Receiver (PDict [(''quickId'', PStr ''2'')]),
        Construct WeightedParcels (PList [PDict [(''copies'', PInt 1), (''weight'', PInt 3)]]),
        Construct Service (PDict [(''id'', PStr ''PO5041'')])])
   \<and> accept_all Sender (PDict [(''quickId'', PStr ''1'')])
   \<and> accept_all SenderPartners (PList [PDict [(''id'', PStr ''POSTI''), (''custNo'', PStr ''12345'')]])
   \<and> accept_all Receiver (PDict [(''quickId'', PStr ''2'')])
   \<and> constructions (snd (create_shipment accept_all (PStr ''12345'') ''PO5041''
        (PDict [(''quickId'', PStr ''2'')]) (PDict [(''quickId'', PStr ''1'')])
        (PList [PDict [(''copies'', PInt 1), (''weight'', PInt 3)]])
        PNone PNone PNone PNone PNone)) ! 3 =
      (WeightedParcels, PList [PDict [(''copies'', PInt 1), (''weight'', PInt 3)]])
   \<and> items_required (PDict [(''type'', PStr ''array''),
        (''items'', PDict [(''type'', PStr ''object''), (''required'', PList [PStr ''copies''])])]) =
      Inr (PList [PStr ''copies''])
   \<and> WeightedParcels_schema (PDict [(''type'', PStr ''array''),
        (''items'', PDict [(''type'', PStr ''object''), (''required'', PList [PStr ''copies''])])]) =
      Inr (PDict [(''type'', PStr ''array''),
        (''items'', PDict [(''type'', PStr ''object''),
           (''required'', PList [PStr ''copies'', PStr ''weight''])])])"
  using create_shipment_parcels_variant [of "''PO5041''" accept_all "PStr ''12345''"
      "PDict [(''quickId'', PStr ''2'')]" "PDict [(''quickId'', PStr ''1'')]"
      "PList [PDict [(''copies'', PInt 1), (''weight'', PInt 3)]]" PNone PNone PNone PNone PNone
      "PDict [(''type'', PStr ''array''),
        (''items'', PDict [(''type'', PStr ''object''), (''required'', PList [PStr ''copies''])])]"]
  by (simp add: shipment_eval accept_all_def items_required_def WeightedParcels_schema_def
        getitem_key_def)


text \<open>
  Claim C5. In a shipment that \<open>create_shipment\<close> returns, an omitted (\<^verbatim>\<open>None\<close>) agent,
  order number, sender reference or PDF configuration leaves no key \<^verbatim>\<open>agent\<close>,
  \<^verbatim>\<open>orderNo\<close>, \<^verbatim>\<open>senderReference\<close> or \<^verbatim>\<open>pdfConfig\<close> among the keyword arguments of the
  shipment. The service is a \<open>Service\<close> object over a dictionary that holds the service
  code under \<^verbatim>\<open>id\<close>; it has a key \<^verbatim>\<open>addons\<close> exactly when the addons are truthy (a
  non-empty list), holding the addons, and none when the addons are omitted. The
  shipment itself never has a key \<^verbatim>\<open>addons\<close>.
\<close>

theorem create_shipment_omitted_fields_absent:
  assumes "create_shipment valid custno service_id receiver sender parcels
             agent order_no sender_reference pdf_config addons = (Inr sh, tr)"
  shows "(agent = PNone \<longrightarrow> ''agent'' \<notin> set (dict_keys (kwargs sh)))
       \<and> (order_no = PNone \<longrightarrow> ''orderNo'' \<notin> set (dict_keys (kwargs sh)))
       \<and> (sender_reference = PNone \<longrightarrow> ''senderReference'' \<notin> set (dict_keys (kwargs sh)))
       \<and> (pdf_config = PNone \<longrightarrow> ''pdfConfig'' \<notin> set (dict_keys (kwargs sh)))
       \<and> (\<exists>d. map_of (kwargs sh) ''service'' = Some (Object (Obj Service (PDict d)))
               \<and> map_of d ''id'' = Some (PStr service_id)
               \<and> (addons = PNone \<longrightarrow> ''addons'' \<notin> set (dict_keys d))
               \<and> (''addons'' \<in> set (dict_keys d) \<longleftrightarrow> truthy addons)
               \<and> (truthy addons \<longrightarrow> map_of d ''addons'' = Some addons))
       \<and> ''addons'' \<notin> set (dict_keys (kwargs sh))"
proof -
  note kw = create_shipment_Inr [OF assms]
  let ?d = "[(''id'', PStr service_id)] @ (if truthy addons then [(''addons'', addons)] else [])"
  have a: "agent = PNone \<longrightarrow> ''agent'' \<notin> set (dict_keys (kwargs sh))"
    by (auto simp: kw dict_keys_def)
  have b: "order_no = PNone \<longrightarrow> ''orderNo'' \<notin> set (dict_keys (kwargs sh))"
    by (auto simp: kw dict_keys_def)
  have c: "sender_reference = PNone \<longrightarrow> ''senderReference'' \<notin> set (dict_keys (kwargs sh))"
    by (auto simp: kw dict_keys_def)
  have d: "pdf_config = PNone \<longrightarrow> ''pdfConfig'' \<notin> set (dict_keys (kwargs sh))"
    by (auto simp: kw dict_keys_def)
  have e1: "map_of (kwargs sh) ''service'' = Some (Object (Obj Service (PDict ?d)))"
    by (simp add: kw)
  have e2: "map_of ?d ''id'' = Some (PStr service_id)"
    by simp
  have e3: "addons = PNone \<longrightarrow> ''addons'' \<notin> set (dict_keys ?d)"
    by (auto simp: dict_keys_def)
  have e4: "''addons'' \<in> set (dict_keys ?d) \<longleftrightarrow> truthy addons"
    by (auto simp: dict_keys_def)
  have e5: "truthy addons \<longrightarrow> map_of ?d ''addons'' = Some addons"
    by simp
  have f: "''addons'' \<notin> set (dict_keys (kwargs sh))"
    by (auto simp: kw dict_keys_def)
  from e1 e2 e3 e4 e5
  have e: "\<exists>d. map_of (kwargs sh) ''service'' = Some (Object (Obj Service (PDict d)))
               \<and> map_of d ''id'' = Some (PStr service_id)
               \<and> (addons = PNone \<longrightarrow> ''addons'' \<notin> set (dict_keys d))
               \<and> (''addons'' \<in> set (dict_keys d) \<longleftrightarrow> truthy addons)
               \<and> (truthy addons \<longrightarrow> map_of d ''addons'' = Some addons)"
    by blast
  from a b c d e f show ?thesis by blast
qed

theorem create_shipment_omitted_fields_absent_witness:
  "create_shipment accept_all (PStr ''12345'') ''PO2102''
      (PDict [(''name'', PStr ''Anders Innovations''), (''city'', PStr ''Helsinki''),
              (''country'', PStr ''FI'')])
      (PDict [(''quickId'', PStr ''1'')]) (PList [PDict [(''copies'', PInt 1)]])
      PNone PNone PNone PNone PNone =
    (Inr (Shipment
       [(''sender'', Object (Obj Sender (PDict [(''quickId'', PStr ''1'')]))),
        (''senderPartners'', Object (Obj SenderPartners
           (PList [PDict [(''id'', PStr ''POSTI''), (''custNo'', PStr ''12345'')]]))),
        (''receiver'', Object (Obj Receiver
           (PDict [(''name'', PStr ''Anders Innovations''), (''city'', PStr ''Helsinki''),
                   (''country'', PStr ''FI'')]))),
        (''parcels'', Object (Obj Parcels (PList [PDict [(''copies'', PInt 1)]]))),
        (''service'', Object (Obj Service (PDict [(''id'', PStr ''PO2102'')])))]),
     [Construct Sender (PDict [(''quickId'', PStr ''1'')]),
      Construct SenderPartners
        (PList [PDict [(''id'', PStr ''POSTI''), (''custNo'', PStr ''12345'')]]),
      Construct Receiver
        (PDict [(''name'', PStr ''Anders Innovations''), (''city'', PStr ''Helsinki''),
                (''country'', PStr ''FI'')]),
      Construct Parcels (PList [PDict [(''copies'', PInt 1)]]),
      Construct Service (PDict [(''id'', PStr ''PO2102'')])])
   \<and> dict_keys (kwargs (Shipment
       [(''sender'', Object (Obj Sender (PDict [(''quickId'', PStr ''1'')]))),
        (''senderPartners'', Object (Obj SenderPartners
           (PList [PDict [(''id'', PStr ''POSTI''), (''custNo'', PStr ''12345'')]]))),
        (''receiver'', Object (Obj Receiver
           (PDict [(''name'', PStr ''Anders Innovations''), (''city'', PStr ''Helsinki''),
                   (''country'', PStr ''FI'')]))),
        (''parcels'', Object (Obj Parcels (PList [PDict [(''copies'', PInt 1)]]))),
        (''service'', Object (Obj Service (PDict [(''id'', PStr ''PO2102'')])))])) =
     [''sender'', ''senderPartners'', ''receiver'', ''parcels'', ''service'']"
proof -
  have run: "create_shipment accept_all (PStr ''12345'') ''PO2102''
      (PDict [(''name'', PStr ''Anders Innovations''), (''city'', PStr ''Helsinki''),
              (''country'', PStr ''FI'')])
      (PDict [(''quickId'', PStr ''1'')]) (PList [PDict [(''copies'', PInt 1)]])
      PNone PNone PNone PNone PNone =
    (Inr (Shipment
       [(''sender'', Object (Obj Sender (PDict [(''quickId'', PStr ''1'')]))),
        (''senderPartners'', Object (Obj SenderPartners
           (PList [PDict [(''id'', PStr ''POSTI''), (''custNo'', PStr ''12345'')]]))),
        (''receiver'', Object (Obj Receiver
           (PDict [(''name'', PStr ''Anders Innovations''), (''city'', PStr ''Helsinki''),
                   (''country'', PStr ''FI'')]))),
        (''parcels'', Object (Obj Parcels (PList [PDict [(''copies'', PInt 1)]]))),
        (''service'', Object (Obj Service (PDict [(''id'', PStr ''PO2102'')])))]),
     [Construct Sender (PDict [(''quickId'', PStr ''1'')]),
      Construct SenderPartners
        (PList [PDict [(''id'', PStr ''POSTI''), (''custNo'', PStr ''12345'')]]),
      Construct Receiver
        (PDict [(''name'', PStr ''Anders Innovations''), (''city'', PStr ''Helsinki''),
                (''country'', PStr ''FI'')]),
      Construct Parcels (PList [PDict [(''copies'', PInt 1)]]),
      Construct Service (PDict [(''id'', PStr ''PO2102'')])])"
    by (simp add: shipment_eval accept_all_def)
  from run create_shipment_omitted_fields_absent [OF run] show ?thesis
    by (simp add: dict_keys_def)
qed

text \<open>
  Claim C10. \<open>create_shipment\<close> tests its optional arguments for truth, not for
  presence: replacing a falsy agent, order number, sender reference, PDF configuration or
  addons value by \<^verbatim>\<open>None\<close> changes neither the result nor the trace. In particular the
  code \<^verbatim>\<open>PO2103\<close> with the agent \<^verbatim>\<open>{}\<close> selects the base receiver class, and a shipment
  returned for it has a \<open>Receiver\<close> receiver and no key \<^verbatim>\<open>agent\<close>. A truthy value is
  honoured: with \<^verbatim>\<open>PO2103\<close> a truthy agent selects \<open>MobileReceiver\<close>, and a returned
  shipment holds the agent, the order number, the sender reference, the PDF configuration
  and (in its service) the addons exactly when they are truthy, each with the value that
  was given.
\<close>

theorem create_shipment_falsy_as_omitted:
  "(\<not> truthy agent \<longrightarrow>
      create_shipment valid custno service_id receiver sender parcels
        agent order_no sender_reference pdf_config addons =
      create_shipment valid custno service_id receiver sender parcels
        PNone order_no sender_reference pdf_config addons)
   \<and> (\<not> truthy order_no \<longrightarrow>
      create_shipment valid custno service_id receiver sender parcels
        agent order_no sender_reference pdf_config addons =
      create_shipment valid custno service_id receiver sender parcels
        agent PNone sender_reference pdf_config addons)
   \<and> (\<not> truthy sender_reference \<longrightarrow>
      create_shipment valid custno service_id receiver sender parcels
        agent order_no sender_reference pdf_config addons =
      create_shipment valid custno service_id receiver sender parcels
        agent order_no PNone pdf_config addons)
   \<and> (\<not> truthy pdf_config \<longrightarrow>
      create_shipment valid custno service_id receiver sender parcels
        agent order_no sender_reference pdf_config addons =
      create_shipment valid custno service_id receiver sender parcels
        agent order_no sender_reference PNone addons)
   \<and> (\<not> truthy addons \<longrightarrow>
      create_shipment valid custno service_id receiver sender parcels
        agent order_no sender_reference pdf_config addons =
      create_shipment valid custno service_id receiver sender parcels
        agent order_no sender_reference pdf_config PNone)
   \<and> infer_receiver_class ''PO2103'' (PDict []) = Receiver
   \<and> (\<forall>sh tr. create_shipment valid custno ''PO2103'' receiver sender parcels
         (PDict []) order_no sender_reference pdf_config addons = (Inr sh, tr) \<longrightarrow>
       map_of (kwargs sh) ''receiver'' = Some (Object (Obj Receiver receiver))
       \<and> ''agent'' \<notin> set (dict_keys (kwargs sh)))
   \<and> (truthy agent \<longrightarrow> infer_receiver_class ''PO2103'' agent = MobileReceiver)
   \<and> (\<forall>sh tr. create_shipment valid custno service_id receiver sender parcels
         agent order_no sender_reference pdf_config addons = (Inr sh, tr) \<longrightarrow>
       map_of (kwargs sh) ''agent'' =
         (if truthy agent then Some (Object (Obj Agent agent)) else None)
       \<and> map_of (kwargs sh) ''orderNo'' =
         (if truthy order_no then Some (Plain order_no) else None)
       \<and> map_of (kwargs sh) ''senderReference'' =
         (if truthy sender_reference then Some (Plain sender_reference) else None)
       \<and> map_of (kwargs sh) ''pdfConfig'' =
         (if truthy pdf_config then Some (Object (Obj PDFConfig pdf_config)) else None)
       \<and> map_of (kwargs sh) ''service'' =
         Some (Object (Obj Service (PDict
           (if truthy addons then [(''id'', PStr service_id), (''addons'', addons)]
            else [(''id'', PStr service_id)]))))
       \<and> map_of (kwargs sh) ''receiver'' =
         Some (Object (Obj
           (if service_id = ''PO2104'' \<or> (service_id = ''PO2103'' \<and> truthy agent)
            then MobileReceiver else Receiver) receiver)))"
proof (intro conjI allI impI)
  assume "\<not> truthy agent"
  then show "create_shipment valid custno service_id receiver sender parcels
        agent order_no sender_reference pdf_config addons =
      create_shipment valid custno service_id receiver sender parcels
        PNone order_no sender_reference pdf_config addons"
    by (simp add: create_shipment_def infer_receiver_class_def split del: if_split cong: if_cong)
next
  assume "\<not> truthy order_no"
  then show "create_shipment valid custno service_id receiver sender parcels
        agent order_no sender_reference pdf_config addons =
      create_shipment valid custno service_id receiver sender parcels
        agent PNone sender_reference pdf_config addons"
    by (simp add: create_shipment_def split del: if_split)
next
  assume "\<not> truthy sender_reference"
  then show "create_shipment valid custno service_id receiver sender parcels
        agent order_no sender_reference pdf_config addons =
      create_shipment valid custno service_id receiver sender parcels
        agent order_no PNone pdf_config addons"
    by (simp add: create_shipment_def split del: if_split)
next
  assume "\<not> truthy pdf_config"
  then show "create_shipment valid custno service_id receiver sender parcels
        agent order_no sender_reference pdf_config addons =
      create_shipment valid custno service_id receiver sender parcels
        agent order_no sender_reference PNone addons"
    by (simp add: create_shipment_def split del: if_split)
next
  assume "\<not> truthy addons"
  then show "create_shipment valid custno service_id receiver sender parcels
        agent order_no sender_reference pdf_config addons =
      create_shipment valid custno service_id receiver sender parcels
        agent order_no sender_reference pdf_config PNone"
    by (simp add: create_shipment_def build_service_def split del: if_split)
next
  show "infer_receiver_class ''PO2103'' (PDict []) = Receiver"
    by (simp add: infer_receiver_class_def)
next
  fix sh tr
  assume run: "create_shipment valid custno ''PO2103'' receiver sender parcels
         (PDict []) order_no sender_reference pdf_config addons = (Inr sh, tr)"
  from create_shipment_Inr [OF run]
  show "map_of (kwargs sh) ''receiver'' = Some (Object (Obj Receiver receiver))"
    by (simp add: infer_receiver_class_def)
  show "''agent'' \<notin> set (dict_keys (kwargs sh))"
    by (auto simp: create_shipment_Inr [OF run] dict_keys_def)
next
  assume "truthy agent"
  then show "infer_receiver_class ''PO2103'' agent = MobileReceiver"
    by (simp add: infer_receiver_class_def)
next
  fix sh tr
  assume run: "create_shipment valid custno service_id receiver sender parcels
         agent order_no sender_reference pdf_config addons = (Inr sh, tr)"
  note kw = create_shipment_Inr [OF run]
  show "map_of (kwargs sh) ''agent'' =
         (if truthy agent then Some (Object (Obj Agent agent)) else None)"
    by (simp add: kw)
  show "map_of (kwargs sh) ''orderNo'' =
         (if truthy order_no then Some (Plain order_no) else None)"
    by (simp add: kw)
  show "map_of (kwargs sh) ''senderReference'' =
         (if truthy sender_reference then Some (Plain sender_reference) else None)"
    by (simp add: kw)
  show "map_of (kwargs sh) ''pdfConfig'' =
         (if truthy pdf_config then Some (Object (Obj PDFConfig pdf_config)) else None)"
    by (simp add: kw)
  show "map_of (kwargs sh) ''service'' =
         Some (Object (Obj Service (PDict
           (if truthy addons then [(''id'', PStr service_id), (''addons'', addons)]
            else [(''id'', PStr service_id)]))))"
    by (simp add: kw)
  show "map_of (kwargs sh) ''receiver'' =
         Some (Object (Obj
           (if service_id = ''PO2104'' \<or> (service_id = ''PO2103'' \<and> truthy agent)
            then MobileReceiver else Receiver) receiver))"
    by (simp add: kw infer_receiver_class_def)
qed

theorem create_shipment_falsy_as_omitted_witness:
  "\<not> truthy (PDict []) \<and> \<not> truthy (PStr []) \<and> \<not> truthy (PList [])
   \<and> create_shipment accept_all (PStr ''12345'') ''PO2103'' (PDict [(''quickId'', PStr ''2'')])
        (PDict [(''quickId'', PStr ''1'')]) (PList [PDict [(''copies'', PInt 1)]])
        (PDict []) (PStr []) (PStr []) (PDict []) (PList []) =
      create_shipment accept_all (PStr ''12345'') ''PO2103'' (PDict [(''quickId'', PStr ''2'')])
        (PDict [(''quickId'', PStr ''1'')]) (PList [PDict [(''copies'', PInt 1)]])
        PNone (PStr []) (PStr []) (PDict []) (PList [])
   \<and> create_shipment accept_all (PStr ''12345'') ''PO2103'' (PDict [(''quickId'', PStr ''2'')])
        (PDict [(''quickId'', PStr ''1'')]) (PList [PDict [(''copies'', PInt 1)]])
        (PDict []) (PStr []) (PStr []) (PDict []) (PList []) =
      (Inr (Shipment
         [(''sender'', Object (Obj Sender (PDict [(''quickId'', PStr ''1'')]))),
          (''senderPartners'', Object (Obj SenderPartners
             (PList [PDict [(''id'', PStr ''POSTI''), (''custNo'', PStr ''12345'')]]))),
          (''receiver'', Object (Obj Receiver (PDict [(''quickId'', PStr ''2'')]))),
          (''parcels'', Object (Obj Parcels (PList [PDict [(''copies'', PInt 1)]]))),
          (''service'', Object (Obj Service (PDict [(''id'', PStr ''PO2103'')])))]),
       [Construct Sender (PDict [(''quickId'', PStr ''1'')]),
        Construct SenderPartners
          (PList [PDict [(''id'', PStr ''POSTI''), (''custNo'', PStr ''12345'')]]),
        Construct Receiver (PDict [(''quickId'', PStr ''2'')]),
        Construct Parcels (PList [PDict [(''copies'', PInt 1)]]),
        Construct Service (PDict [(''id'', PStr ''PO2103'')])])
   \<and> truthy (PDict [(''quickId'', PStr ''7'')]) \<and> truthy (PStr ''A-1'')
   \<and> truthy (PList [PDict [(''id'', PStr ''SPTR'')]])
   \<and> create_shipment accept_all (PStr ''12345'') ''PO2103'' (PDict [(''quickId'', PStr ''2'')])
        (PDict [(''quickId'', PStr ''1'')]) (PList [PDict [(''copies'', PInt 1)]])
        (PDict [(''quickId'', PStr ''7'')]) (PStr ''A-1'') (PStr ''ref'')
        (PDict [(''target1Media'', PStr ''laser-a5'')]) (PList [PDict [(''id'', PStr ''SPTR'')]]) =
      (Inr (Shipment
         [(''sender'', Object (Obj Sender (PDict [(''quickId'', PStr ''1'')]))),
          (''senderPartners'', Object (Obj SenderPartners
             (PList [PDict [(''id'', PStr ''POSTI''), (''custNo'', PStr ''12345'')]]))),
          (''receiver'', Object (Obj MobileReceiver (PDict [(''quickId'', PStr ''2'')]))),
          (''parcels'', Object (Obj Parcels (PList [PDict [(''copies'', PInt 1)]]))),
          (''service'', Object (Obj Service (PDict [(''id'', PStr ''PO2103''),
             (''addons'', PList [PDict [(''id'', PStr ''SPTR'')]])]))),
          (''agent'', Object (Obj Agent (PDict [(''quickId'', PStr ''7'')]))),
          (''orderNo'', Plain (PStr ''A-1'')),
          (''senderReference'', Plain (PStr ''ref'')),
          (''pdfConfig'', Object (Obj PDFConfig (PDict [(''target1Media'', PStr ''laser-a5'')])))]),
       [Construct Sender (PDict [(''quickId'', PStr ''1'')]),
        Construct SenderPartners
          (PList [PDict [(''id'', PStr ''POSTI''), (''custNo'', PStr ''12345'')]]),
        Construct MobileReceiver (PDict [(''quickId'', PStr ''2'')]),
        Construct Parcels (PList [PDict [(''copies'', PInt 1)]]),
        Construct Service (PDict [(''id'', PStr ''PO2103'')]),
        Construct Agent (PDict [(''quickId'', PStr ''7'')]),
        Construct PDFConfig (PDict [(''target1Media'', PStr ''laser-a5'')])])"
  using create_shipment_falsy_as_omitted [of "PDict []" accept_all "PStr ''12345''" "''PO2103''"
      "PDict [(''quickId'', PStr ''2'')]" "PDict [(''quickId'', PStr ''1'')]"
      "PList [PDict [(''copies'', PInt 1)]]" "PStr []" "PStr []" "PDict []" "PList []"]
    create_shipment_falsy_as_omitted [of "PDict [(''quickId'', PStr ''7'')]" accept_all
      "PStr ''12345''" "''PO2103''"
      "PDict [(''quickId'', PStr ''2'')]" "PDict [(''quickId'', PStr ''1'')]"
      "PList [PDict [(''copies'', PInt 1)]]" "PStr ''A-1''" "PStr ''ref''"
      "PDict [(''target1Media'', PStr ''laser-a5'')]" "PList [PDict [(''id'', PStr ''SPTR'')]]"]
  by (simp add: shipment_eval accept_all_def)


section \<open>Properties of the location query\<close>

lemma dict_pop_filter:
  "distinct (map fst d) \<Longrightarrow> dict_pop k d = filter (\<lambda>(k', v). k' \<noteq> k) d"
proof (induction d)
  case Nil
  then show ?case by simp
next
  case (Cons e d)
  obtain k' v' where e: "e = (k', v')" by (cases e)
  show ?case
  proof (cases "k' = k")
    case True
    with Cons.prems e have "\<forall>x\<in>set d. fst x \<noteq> k" by auto
    then have "filter (\<lambda>(k', v). k' \<noteq> k) d = d"
      by (auto simp: filter_id_conv)
    with True e show ?thesis by simp
  next
    case False
    with Cons e show ?thesis by simp
  qed
qed

lemma fold_pop_none:
  assumes "distinct (map fst p)"
    and "\<forall>k. (k, PNone) \<in> set xs \<longrightarrow> (\<forall>v. (k, v) \<in> set p \<longrightarrow> v = PNone)"
  shows "fold (\<lambda>(key, val) p. if val = PNone then dict_pop key p else p) xs p =
         filter (\<lambda>(k, v). (k, PNone) \<notin> set xs) p"
  using assms
proof (induction xs arbitrary: p)
  case Nil
  then show ?case by simp
next
  case (Cons e xs)
  obtain k v where e: "e = (k, v)" by (cases e)
  show ?case
  proof (cases "v = PNone")
    case True
    let ?p' = "filter (\<lambda>(k', v). k' \<noteq> k) p"
    have pop: "dict_pop k p = ?p'"
      using Cons.prems(1) by (rule dict_pop_filter)
    have d': "distinct (map fst ?p')"
      using Cons.prems(1) by (simp add: distinct_map_filter)
    have h': "\<forall>k. (k, PNone) \<in> set xs \<longrightarrow> (\<forall>v. (k, v) \<in> set ?p' \<longrightarrow> v = PNone)"
      using Cons.prems(2) by auto
    have "fold (\<lambda>(key, val) p. if val = PNone then dict_pop key p else p) (e # xs) p =
          fold (\<lambda>(key, val) p. if val = PNone then dict_pop key p else p) xs ?p'"
      using True e pop by simp
    also have "\<dots> = filter (\<lambda>(k, v). (k, PNone) \<notin> set xs) ?p'"
      using d' h' by (rule Cons.IH)
    also have "\<dots> = filter (\<lambda>(k, v). (k, PNone) \<notin> set (e # xs)) p"
      using True e by (auto intro!: filter_cong)
    finally show ?thesis .
  next
    case False
    have "fold (\<lambda>(key, val) p. if val = PNone then dict_pop key p else p) (e # xs) p =
          fold (\<lambda>(key, val) p. if val = PNone then dict_pop key p else p) xs p"
      using False e by simp
    also have "\<dots> = filter (\<lambda>(k, v). (k, PNone) \<notin> set xs) p"
      using Cons.prems by (intro Cons.IH) auto
    also have "\<dots> = filter (\<lambda>(k, v). (k, PNone) \<notin> set (e # xs)) p"
      using False e by (auto intro!: filter_cong)
    finally show ?thesis .
  qed
qed

lemma drop_none_filter:
  assumes "distinct (map fst d)"
  shows "drop_none d = filter (\<lambda>(k, v). v \<noteq> PNone) d"
proof -
  have h: "\<forall>k. (k, PNone) \<in> set d \<longrightarrow> (\<forall>v. (k, v) \<in> set d \<longrightarrow> v = PNone)"
    using assms by (auto dest: eq_key_imp_eq_value)
  have "drop_none d = filter (\<lambda>(k, v). (k, PNone) \<notin> set d) d"
    unfolding drop_none_def using assms h by (rule fold_pop_none)
  also have "\<dots> = filter (\<lambda>(k, v). v \<noteq> PNone) d"
    using h by (auto intro!: filter_cong)
  finally show ?thesis .
qed

lemma map_of_filter_not_none:
  "distinct (map fst d) \<Longrightarrow>
   map_of (filter (\<lambda>(k, v). v \<noteq> PNone) d) k =
     (case map_of d k of None \<Rightarrow> None | Some v \<Rightarrow> if v = PNone then None else Some v)"
  by (induction d) (auto split: option.splits simp: map_of_eq_None_iff image_iff)


lemma expand_bounding_box_None: "expand_bounding_box PNone p = (Inr p, [])"
  by (simp add: expand_bounding_box_def returns_def)

lemma expand_bounding_box_list4:
  "expand_bounding_box (PList (b0 # b1 # b2 # b3 # rest)) p =
     (Inr (dict_set ''bottomRightLng'' b3 (dict_set ''bottomRightLat'' b2
            (dict_set ''topLeftLng'' b1 (dict_set ''topLeftLat'' b0 p)))), [])"
  by (simp add: expand_bounding_box_def getitem_def traced_eval)

lemma expand_bounding_box_short:
  "length xs < 4 \<Longrightarrow> expand_bounding_box (PList xs) p = (Inl IndexError, [])"
  "length s < 4 \<Longrightarrow> expand_bounding_box (PStr s) p = (Inl IndexError, [])"
  by (auto simp: expand_bounding_box_def getitem_def traced_eval Let_def)

lemma expand_bounding_box_Inr:
  assumes "expand_bounding_box bbox p = (Inr ps, tr)"
  shows "tr = [] \<and> ((bbox = PNone \<and> ps = p) \<or>
     (\<exists>b0 b1 b2 b3. getitem bbox 0 = Inr b0 \<and> getitem bbox 1 = Inr b1 \<and>
        getitem bbox 2 = Inr b2 \<and> getitem bbox 3 = Inr b3 \<and>
        ps = dict_set ''bottomRightLng'' b3 (dict_set ''bottomRightLat'' b2
            (dict_set ''topLeftLng'' b1 (dict_set ''topLeftLat'' b0 p)))))"
  using assms
  by (auto simp: expand_bounding_box_def and_then_Inr_iff returns_Inr_iff lift_def Let_def
        split: if_splits)

lemma expand_bounding_box_Inl:
  "expand_bounding_box bbox p = (Inl e, tr) \<Longrightarrow> tr = []"
  by (auto simp: expand_bounding_box_def traced_eval Let_def split: if_splits sum.splits)

lemma initial_params_expanded:
  "dict_set ''bottomRightLng'' b3 (dict_set ''bottomRightLat'' b2
     (dict_set ''topLeftLng'' b1 (dict_set ''topLeftLat'' b0 (initial_params a)))) =
   initial_params a @
     [(''topLeftLat'', b0), (''topLeftLng'', b1), (''bottomRightLat'', b2),
      (''bottomRightLng'', b3)]"
  by (simp add: initial_params_def)

lemma initial_params_keys:
  "map fst (initial_params a) =
     [''countryCode'', ''top'', ''types'', ''lat'', ''lng'', ''distance'', ''zipCode'',
      ''locationZipCode'', ''strictZipCode'', ''city'', ''municipality'', ''pupCode'',
      ''partnerType'']"
  by (simp add: initial_params_def)

lemma get_locations_expand_Inl:
  "expand_bounding_box (bounding_box a) (initial_params a) = (Inl e, tr) \<Longrightarrow>
   get_locations http valid a = (Inl e, [])"
  by (frule expand_bounding_box_Inl) (simp add: get_locations_def and_then_def)

lemma get_locations_expand_Inr:
  assumes "expand_bounding_box (bounding_box a) (initial_params a) = (Inr ps, tr)"
  shows "get_locations http valid a =
     (case http LOCATION_SERVICE_API_ENDPOINT (drop_none ps) of
        Inl e \<Rightarrow> (Inl e, [HttpGet LOCATION_SERVICE_API_ENDPOINT (drop_none ps)])
      | Inr r \<Rightarrow>
          if \<not> (200 \<le> status_code r \<and> status_code r < 300)
          then (Inl (HTTPError (status_code r)),
                [HttpGet LOCATION_SERVICE_API_ENDPOINT (drop_none ps)])
          else (case json_body r of
             None \<Rightarrow> (Inl JSONDecodeError,
                       [HttpGet LOCATION_SERVICE_API_ENDPOINT (drop_none ps)])
           | Some body \<Rightarrow>
               (case getitem_key body ''locations'' of
                  Inl e \<Rightarrow> (Inl e, [HttpGet LOCATION_SERVICE_API_ENDPOINT (drop_none ps)])
                | Inr locs \<Rightarrow>
                    (if valid Locations locs then Inr (Obj Locations locs)
                     else Inl (ValidationError Locations),
                     [HttpGet LOCATION_SERVICE_API_ENDPOINT (drop_none ps),
                      Construct Locations locs]))))"
proof -
  from expand_bounding_box_Inr [OF assms] have "tr = []" by simp
  with assms show ?thesis
    by (simp add: get_locations_def requests_get_def raise_for_status_def response_json_def
          traced_eval Let_def split: sum.splits option.splits)
qed

lemma get_locations_requests:
  assumes "expand_bounding_box (bounding_box a) (initial_params a) = (Inr ps, tr)"
  shows "http_requests (snd (get_locations http valid a)) =
           [(LOCATION_SERVICE_API_ENDPOINT, drop_none ps)]"
  by (simp add: get_locations_expand_Inr [OF assms] split: sum.splits option.splits)

lemma get_locations_requests_cases:
  "http_requests (snd (get_locations http valid a)) =
     (case expand_bounding_box (bounding_box a) (initial_params a) of
        (Inl e, tr) \<Rightarrow> []
      | (Inr ps, tr) \<Rightarrow> [(LOCATION_SERVICE_API_ENDPOINT, drop_none ps)])"
proof (cases "expand_bounding_box (bounding_box a) (initial_params a)")
  case (Pair r tr)
  show ?thesis
  proof (cases r)
    case (Inl e)
    with Pair get_locations_expand_Inl [of a e tr http valid] show ?thesis by simp
  next
    case (Inr ps)
    with Pair get_locations_requests [of a ps tr http valid] show ?thesis by simp
  qed
qed

lemma expanded_params_distinct:
  assumes "expand_bounding_box (bounding_box a) (initial_params a) = (Inr ps, tr)"
  shows "distinct (map fst ps)"
    and "\<forall>k v. (k, v) \<in> set (initial_params a) \<longrightarrow> map_of ps k = Some v"
proof -
  have d0: "distinct (map fst (initial_params a))"
    by (simp add: initial_params_keys)
  from expand_bounding_box_Inr [OF assms]
  consider "ps = initial_params a"
    | b0 b1 b2 b3 where "ps = initial_params a @
       [(''topLeftLat'', b0), (''topLeftLng'', b1), (''bottomRightLat'', b2),
        (''bottomRightLng'', b3)]"
    by (auto simp: initial_params_expanded)
  then have "distinct (map fst ps) \<and>
     (\<forall>k v. (k, v) \<in> set (initial_params a) \<longrightarrow> map_of ps k = Some v)"
  proof cases
    case 1
    with d0 show ?thesis by simp
  next
    case 2
    have "distinct (map fst ps)"
      unfolding 2 by (simp add: initial_params_keys)
    moreover have "\<forall>k v. (k, v) \<in> set (initial_params a) \<longrightarrow> map_of ps k = Some v"
      unfolding 2 using d0 by (simp add: map_add_Some_iff)
    ultimately show ?thesis by simp
  qed
  then show "distinct (map fst ps)"
    and "\<forall>k v. (k, v) \<in> set (initial_params a) \<longrightarrow> map_of ps k = Some v"
    by simp_all
qed


lemma sent_query_lookup:
  assumes "expand_bounding_box (bounding_box a) (initial_params a) = (Inr ps, tr)"
  shows "map_of (drop_none ps) k =
     (case map_of ps k of None \<Rightarrow> None | Some v \<Rightarrow> if v = PNone then None else Some v)"
  using expanded_params_distinct(1) [OF assms]
  by (simp add: drop_none_filter map_of_filter_not_none)

lemma sent_query_expanded:
  assumes "(url, q) \<in> set (http_requests (snd (get_locations http valid a)))"
  shows "\<exists>ps tr. expand_bounding_box (bounding_box a) (initial_params a) = (Inr ps, tr) \<and>
     q = drop_none ps"
proof (cases "expand_bounding_box (bounding_box a) (initial_params a)")
  case (Pair r tr)
  show ?thesis
  proof (cases r)
    case (Inl e)
    with Pair assms show ?thesis
      by (simp add: get_locations_requests_cases)
  next
    case (Inr ps)
    with Pair assms show ?thesis
      by (simp add: get_locations_requests_cases)
  qed
qed

lemma strict_zip_code_initial:
  "(''strictZipCode'', if truthy (strict_zip_code a) then PStr ''true'' else PNone)
     \<in> set (initial_params a)"
  by (simp add: initial_params_def)

lemma no_args_query:
  "http_requests (snd (get_locations http valid no_args)) =
     [(LOCATION_SERVICE_API_ENDPOINT, [])]"
proof -
  have e: "expand_bounding_box (bounding_box no_args) (initial_params no_args) =
     (Inr (initial_params no_args), [])"
    by (simp add: no_args_def expand_bounding_box_None)
  have "drop_none (initial_params no_args) = []"
    by (simp add: drop_none_filter initial_params_keys)
       (simp add: initial_params_def no_args_def)
  with get_locations_requests [OF e] show ?thesis by simp
qed

lemmas locations_eval =
  get_locations_def expand_bounding_box_def initial_params_def drop_none_def
  requests_get_def raise_for_status_def response_json_def getitem_def getitem_key_def
  LOCATION_SERVICE_API_ENDPOINT_def no_args_def traced_eval

text \<open>
  Claim C4. In every request that \<open>get_locations\<close> sends, the query parameter
  \<^verbatim>\<open>strictZipCode\<close> is the string \<^verbatim>\<open>"true"\<close> when \<^verbatim>\<open>strict_zip_code\<close> is truthy and is
  absent otherwise (so it is never \<^verbatim>\<open>"false"\<close>); a request is sent whenever no bounding
  box is given. \<^verbatim>\<open>get_locations(strict_zip_code=True)\<close> sends the query
  \<^verbatim>\<open>strictZipCode=true\<close>, and \<^verbatim>\<open>get_locations(strict_zip_code=False)\<close> and
  \<^verbatim>\<open>get_locations()\<close> send an empty query.
\<close>

theorem get_locations_strict_zip_code:
  "(\<forall>url q. (url, q) \<in> set (http_requests (snd (get_locations http valid a))) \<longrightarrow>
       map_of q ''strictZipCode'' =
         (if truthy (strict_zip_code a) then Some (PStr ''true'') else None))
   \<and> (bounding_box a = PNone \<longrightarrow>
        (\<exists>q. http_requests (snd (get_locations http valid a)) =
               [(LOCATION_SERVICE_API_ENDPOINT, q)]))
   \<and> http_requests (snd (get_locations http valid (no_args\<lparr>strict_zip_code := PBool True\<rparr>))) =
        [(LOCATION_SERVICE_API_ENDPOINT, [(''strictZipCode'', PStr ''true'')])]
   \<and> http_requests (snd (get_locations http valid (no_args\<lparr>strict_zip_code := PBool False\<rparr>))) =
        [(LOCATION_SERVICE_API_ENDPOINT, [])]
   \<and> http_requests (snd (get_locations http valid no_args)) =
        [(LOCATION_SERVICE_API_ENDPOINT, [])]"
proof (intro conjI allI impI)
  fix url q
  assume sent: "(url, q) \<in> set (http_requests (snd (get_locations http valid a)))"
  have "\<exists>ps tr. expand_bounding_box (bounding_box a) (initial_params a) = (Inr ps, tr) \<and>
     q = drop_none ps"
    by (rule sent_query_expanded [OF sent])
  then obtain ps tr where
    e: "expand_bounding_box (bounding_box a) (initial_params a) = (Inr ps, tr)" and
    q: "q = drop_none ps"
    by blast
  from expanded_params_distinct(2) [OF e] strict_zip_code_initial [of a]
  have "map_of ps ''strictZipCode'' =
          Some (if truthy (strict_zip_code a) then PStr ''true'' else PNone)"
    by blast
  then show "map_of q ''strictZipCode'' =
         (if truthy (strict_zip_code a) then Some (PStr ''true'') else None)"
    unfolding q by (simp add: sent_query_lookup [OF e])
next
  assume "bounding_box a = PNone"
  then have "expand_bounding_box (bounding_box a) (initial_params a) =
     (Inr (initial_params a), [])"
    by (simp add: expand_bounding_box_None)
  from get_locations_requests [OF this]
  show "\<exists>q. http_requests (snd (get_locations http valid a)) =
               [(LOCATION_SERVICE_API_ENDPOINT, q)]"
    by blast
next
  let ?a = "no_args\<lparr>strict_zip_code := PBool True\<rparr>"
  have e: "expand_bounding_box (bounding_box ?a) (initial_params ?a) =
     (Inr (initial_params ?a), [])"
    by (simp add: no_args_def expand_bounding_box_None)
  have "drop_none (initial_params ?a) = [(''strictZipCode'', PStr ''true'')]"
    by (simp add: drop_none_filter initial_params_keys)
       (simp add: initial_params_def no_args_def)
  with get_locations_requests [OF e]
  show "http_requests (snd (get_locations http valid ?a)) =
        [(LOCATION_SERVICE_API_ENDPOINT, [(''strictZipCode'', PStr ''true'')])]"
    by simp
next
  let ?a = "no_args\<lparr>strict_zip_code := PBool False\<rparr>"
  have e: "expand_bounding_box (bounding_box ?a) (initial_params ?a) =
     (Inr (initial_params ?a), [])"
    by (simp add: no_args_def expand_bounding_box_None)
  have "drop_none (initial_params ?a) = []"
    by (simp add: drop_none_filter initial_params_keys)
       (simp add: initial_params_def no_args_def)
  with get_locations_requests [OF e]
  show "http_requests (snd (get_locations http valid ?a)) =
        [(LOCATION_SERVICE_API_ENDPOINT, [])]"
    by simp
next
  show "http_requests (snd (get_locations http valid no_args)) =
        [(LOCATION_SERVICE_API_ENDPOINT, [])]"
    by (rule no_args_query)
qed

theorem get_locations_strict_zip_code_witness:
  "bounding_box (no_args\<lparr>strict_zip_code := PInt 1, zipcode := PStr ''00120''\<rparr>) = PNone
   \<and> http_requests (snd (get_locations unreachable accept_all
        (no_args\<lparr>strict_zip_code := PInt 1, zipcode := PStr ''00120''\<rparr>))) =
      [(''https://locationservice.posti.com/location'',
        [(''zipCode'', PStr ''00120''), (''strictZipCode'', PStr ''true'')])]
   \<and> map_of [(''zipCode'', PStr ''00120''), (''strictZipCode'', PStr ''true'')]
        ''strictZipCode'' = Some (PStr ''true'')"
  using get_locations_strict_zip_code [of unreachable accept_all
      "no_args\<lparr>strict_zip_code := PInt 1, zipcode := PStr ''00120''\<rparr>"]
  by (simp add: locations_eval unreachable_def)


text \<open>
  Claim C7. Let \<open>ps\<close> be the parameters after the \<^verbatim>\<open>strictZipCode\<close> and bounding-box
  expansions. \<open>get_locations\<close> then sends one request, to the location endpoint, and its
  query holds exactly the entries of \<open>ps\<close> whose value is not \<^verbatim>\<open>None\<close>: a key is in the
  query exactly when \<open>ps\<close> gives it a value other than \<^verbatim>\<open>None\<close>, with that value, and
  each named parameter is sent with its value unless that is \<^verbatim>\<open>None\<close>. The falsy values
  \<^verbatim>\<open>0\<close> and \<^verbatim>\<open>""\<close> are sent, and \<^verbatim>\<open>get_locations()\<close> sends an empty query.
\<close>

theorem get_locations_omits_exactly_none:
  "(\<forall>ps tr. expand_bounding_box (bounding_box a) (initial_params a) = (Inr ps, tr) \<longrightarrow>
      (\<exists>q. http_requests (snd (get_locations http valid a)) =
              [(LOCATION_SERVICE_API_ENDPOINT, q)]
         \<and> (\<forall>k v. map_of q k = Some v \<longleftrightarrow> map_of ps k = Some v \<and> v \<noteq> PNone)
         \<and> (\<forall>k. k \<in> set (dict_keys q) \<longleftrightarrow> (\<exists>v. map_of ps k = Some v \<and> v \<noteq> PNone))
         \<and> (\<forall>k v. (k, v) \<in> set (initial_params a) \<longrightarrow>
                map_of q k = (if v = PNone then None else Some v))))
   \<and> http_requests (snd (get_locations http valid
        (no_args\<lparr>top_param := PInt 0, city := PStr []\<rparr>))) =
        [(LOCATION_SERVICE_API_ENDPOINT, [(''top'', PInt 0), (''city'', PStr [])])]
   \<and> http_requests (snd (get_locations http valid no_args)) =
        [(LOCATION_SERVICE_API_ENDPOINT, [])]"
proof (intro conjI allI impI)
  fix ps tr
  assume e: "expand_bounding_box (bounding_box a) (initial_params a) = (Inr ps, tr)"
  let ?q = "drop_none ps"
  note look = sent_query_lookup [OF e]
  have sent: "http_requests (snd (get_locations http valid a)) =
              [(LOCATION_SERVICE_API_ENDPOINT, ?q)]"
    by (rule get_locations_requests [OF e])
  have vals: "\<forall>k v. map_of ?q k = Some v \<longleftrightarrow> map_of ps k = Some v \<and> v \<noteq> PNone"
    by (auto simp: look split: option.splits if_splits)
  have keys: "\<forall>k. k \<in> set (dict_keys ?q) \<longleftrightarrow> (\<exists>v. map_of ps k = Some v \<and> v \<noteq> PNone)"
  proof
    fix k
    have "k \<in> set (dict_keys ?q) \<longleftrightarrow> map_of ?q k \<noteq> None"
      by (simp add: dict_keys_def map_of_eq_None_iff)
    also have "\<dots> \<longleftrightarrow> (\<exists>v. map_of ps k = Some v \<and> v \<noteq> PNone)"
      by (auto simp: look split: option.splits if_splits)
    finally show "k \<in> set (dict_keys ?q) \<longleftrightarrow> (\<exists>v. map_of ps k = Some v \<and> v \<noteq> PNone)" .
  qed
  have named: "\<forall>k v. (k, v) \<in> set (initial_params a) \<longrightarrow>
                map_of ?q k = (if v = PNone then None else Some v)"
    using expanded_params_distinct(2) [OF e] by (simp add: look)
  from sent vals keys named
  show "\<exists>q. http_requests (snd (get_locations http valid a)) =
              [(LOCATION_SERVICE_API_ENDPOINT, q)]
         \<and> (\<forall>k v. map_of q k = Some v \<longleftrightarrow> map_of ps k = Some v \<and> v \<noteq> PNone)
         \<and> (\<forall>k. k \<in> set (dict_keys q) \<longleftrightarrow> (\<exists>v. map_of ps k = Some v \<and> v \<noteq> PNone))
         \<and> (\<forall>k v. (k, v) \<in> set (initial_params a) \<longrightarrow>
                map_of q k = (if v = PNone then None else Some v))"
    by blast
next
  let ?a = "no_args\<lparr>top_param := PInt 0, city := PStr []\<rparr>"
  have e: "expand_bounding_box (bounding_box ?a) (initial_params ?a) =
     (Inr (initial_params ?a), [])"
    by (simp add: no_args_def expand_bounding_box_None)
  have "drop_none (initial_params ?a) = [(''top'', PInt 0), (''city'', PStr [])]"
    by (simp add: drop_none_filter initial_params_keys)
       (simp add: initial_params_def no_args_def)
  with get_locations_requests [OF e]
  show "http_requests (snd (get_locations http valid ?a)) =
        [(LOCATION_SERVICE_API_ENDPOINT, [(''top'', PInt 0), (''city'', PStr [])])]"
    by simp
next
  show "http_requests (snd (get_locations http valid no_args)) =
        [(LOCATION_SERVICE_API_ENDPOINT, [])]"
    by (rule no_args_query)
qed

theorem get_locations_omits_exactly_none_witness:
  "expand_bounding_box (bounding_box (no_args\<lparr>top_param := PInt 0, zipcode := PStr ''00120''\<rparr>))
      (initial_params (no_args\<lparr>top_param := PInt 0, zipcode := PStr ''00120''\<rparr>)) =
     (Inr [(''countryCode'', PNone), (''top'', PInt 0), (''types'', PNone), (''lat'', PNone),
           (''lng'', PNone), (''distance'', PNone), (''zipCode'', PStr ''00120''),
           (''locationZipCode'', PNone), (''strictZipCode'', PNone), (''city'', PNone),
           (''municipality'', PNone), (''pupCode'', PNone), (''partnerType'', PNone)], [])
   \<and> http_requests (snd (get_locations unreachable accept_all
        (no_args\<lparr>top_param := PInt 0, zipcode := PStr ''00120''\<rparr>))) =
      [(''https://locationservice.posti.com/location'',
        [(''top'', PInt 0), (''zipCode'', PStr ''00120'')])]
   \<and> (''top'', PInt 0) \<in> set (initial_params (no_args\<lparr>top_param := PInt 0, zipcode := PStr ''00120''\<rparr>))
   \<and> map_of [(''top'', PInt 0), (''zipCode'', PStr ''00120'')] ''top'' = Some (PInt 0)
   \<and> map_of [(''top'', PInt 0), (''zipCode'', PStr ''00120'')] ''city'' = None"
  using get_locations_omits_exactly_none [of
      "no_args\<lparr>top_param := PInt 0, zipcode := PStr ''00120''\<rparr>" unreachable accept_all]
  by (simp add: locations_eval unreachable_def)


lemma initial_params_bounding_box [simp]:
  "initial_params (a\<lparr>bounding_box := b\<rparr>) = initial_params a"
  by (simp add: initial_params_def)

text \<open>
  Claim C6, as amended. For a bounding box \<^verbatim>\<open>[b0, b1, b2, b3]\<close>, \<open>get_locations\<close> sends one
  request whose query is made of the named parameters and of \<^verbatim>\<open>topLeftLat=b0\<close>,
  \<^verbatim>\<open>topLeftLng=b1\<close>, \<^verbatim>\<open>bottomRightLat=b2\<close>, \<^verbatim>\<open>bottomRightLng=b3\<close>, each of them present
  exactly when its value is not \<^verbatim>\<open>None\<close>. The query has no parameter \<^verbatim>\<open>bounding_box\<close>
  or \<^verbatim>\<open>boundingBox\<close>. When no other argument is given and no element is \<^verbatim>\<open>None\<close>, the
  query is exactly the four parameters.
\<close>

theorem get_locations_bounding_box:
  assumes "bounding_box a = PList [b0, b1, b2, b3]"
  shows "\<exists>q. http_requests (snd (get_locations http valid a)) =
               [(LOCATION_SERVICE_API_ENDPOINT, q)]
     \<and> q = filter (\<lambda>(k, v). v \<noteq> PNone)
             (initial_params a @
              [(''topLeftLat'', b0), (''topLeftLng'', b1), (''bottomRightLat'', b2),
               (''bottomRightLng'', b3)])
     \<and> map_of q ''topLeftLat'' = (if b0 = PNone then None else Some b0)
     \<and> map_of q ''topLeftLng'' = (if b1 = PNone then None else Some b1)
     \<and> map_of q ''bottomRightLat'' = (if b2 = PNone then None else Some b2)
     \<and> map_of q ''bottomRightLng'' = (if b3 = PNone then None else Some b3)
     \<and> ''bounding_box'' \<notin> set (dict_keys q)
     \<and> ''boundingBox'' \<notin> set (dict_keys q)
     \<and> (a = no_args\<lparr>bounding_box := PList [b0, b1, b2, b3]\<rparr> \<and>
        b0 \<noteq> PNone \<and> b1 \<noteq> PNone \<and> b2 \<noteq> PNone \<and> b3 \<noteq> PNone \<longrightarrow>
          q = [(''topLeftLat'', b0), (''topLeftLng'', b1), (''bottomRightLat'', b2),
               (''bottomRightLng'', b3)])"
proof -
  let ?ps = "initial_params a @
              [(''topLeftLat'', b0), (''topLeftLng'', b1), (''bottomRightLat'', b2),
               (''bottomRightLng'', b3)]"
  let ?q = "filter (\<lambda>(k, v). v \<noteq> PNone) ?ps"
  have e: "expand_bounding_box (bounding_box a) (initial_params a) = (Inr ?ps, [])"
    by (simp add: assms expand_bounding_box_list4 initial_params_expanded)
  have d: "distinct (map fst ?ps)"
    by (rule expanded_params_distinct(1) [OF e])
  have dq: "drop_none ?ps = ?q"
    using d by (rule drop_none_filter)
  have sent: "http_requests (snd (get_locations http valid a)) =
               [(LOCATION_SERVICE_API_ENDPOINT, ?q)]"
    using get_locations_requests [OF e] dq by simp
  have look: "\<And>k. map_of ?q k =
     (case map_of ?ps k of None \<Rightarrow> None | Some v \<Rightarrow> if v = PNone then None else Some v)"
    using d by (rule map_of_filter_not_none)
  have four: "map_of ?ps ''topLeftLat'' = Some b0" "map_of ?ps ''topLeftLng'' = Some b1"
    "map_of ?ps ''bottomRightLat'' = Some b2" "map_of ?ps ''bottomRightLng'' = Some b3"
    by (simp_all add: initial_params_def)
  have m0: "map_of ?q ''topLeftLat'' = (if b0 = PNone then None else Some b0)"
    by (simp only: look four option.case)
  have m1: "map_of ?q ''topLeftLng'' = (if b1 = PNone then None else Some b1)"
    by (simp only: look four option.case)
  have m2: "map_of ?q ''bottomRightLat'' = (if b2 = PNone then None else Some b2)"
    by (simp only: look four option.case)
  have m3: "map_of ?q ''bottomRightLng'' = (if b3 = PNone then None else Some b3)"
    by (simp only: look four option.case)
  have keys: "set (dict_keys ?q) \<subseteq> set (map fst ?ps)"
    by (auto simp: dict_keys_def)
  have nb: "''bounding_box'' \<notin> set (map fst ?ps)" "''boundingBox'' \<notin> set (map fst ?ps)"
    by (simp_all add: initial_params_keys)
  from keys nb have k1: "''bounding_box'' \<notin> set (dict_keys ?q)"
    and k2: "''boundingBox'' \<notin> set (dict_keys ?q)"
    by blast+
  have only: "a = no_args\<lparr>bounding_box := PList [b0, b1, b2, b3]\<rparr> \<and>
        b0 \<noteq> PNone \<and> b1 \<noteq> PNone \<and> b2 \<noteq> PNone \<and> b3 \<noteq> PNone \<longrightarrow>
          ?q = [(''topLeftLat'', b0), (''topLeftLng'', b1), (''bottomRightLat'', b2),
               (''bottomRightLng'', b3)]"
    by (simp add: initial_params_def no_args_def)
  from sent m0 m1 m2 m3 k1 k2 only show ?thesis by blast
qed

theorem get_locations_bounding_box_witness:
  "bounding_box (no_args\<lparr>bounding_box := PList [PFloat 1, PFloat 2, PFloat 3, PFloat 4]\<rparr>) =
     PList [PFloat 1, PFloat 2, PFloat 3, PFloat 4]
   \<and> http_requests (snd (get_locations unreachable accept_all
        (no_args\<lparr>bounding_box := PList [PFloat 1, PFloat 2, PFloat 3, PFloat 4]\<rparr>))) =
      [(''https://locationservice.posti.com/location'',
        [(''topLeftLat'', PFloat 1), (''topLeftLng'', PFloat 2), (''bottomRightLat'', PFloat 3),
         (''bottomRightLng'', PFloat 4)])]
   \<and> PFloat 1 \<noteq> PNone \<and> PFloat 2 \<noteq> PNone \<and> PFloat 3 \<noteq> PNone \<and> PFloat 4 \<noteq> PNone"
  using get_locations_bounding_box [of
      "no_args\<lparr>bounding_box := PList [PFloat 1, PFloat 2, PFloat 3, PFloat 4]\<rparr>"
      "PFloat 1" "PFloat 2" "PFloat 3" "PFloat 4" unreachable accept_all]
  by (simp add: locations_eval unreachable_def)

text \<open>
  Claim C6 as first stated, that every 4-element bounding box yields the four parameters,
  fails for \<^verbatim>\<open>get_locations(bounding_box=[None, 2.0, 3.0, 4.0])\<close>: the loop that drops
  the \<^verbatim>\<open>None\<close> values runs after the expansion, and the query has no \<^verbatim>\<open>topLeftLat\<close>.
\<close>

theorem get_locations_bounding_box_counterexample:
  "http_requests (snd (get_locations unreachable accept_all
      (no_args\<lparr>bounding_box := PList [PNone, PFloat 2, PFloat 3, PFloat 4]\<rparr>))) =
     [(''https://locationservice.posti.com/location'',
       [(''topLeftLng'', PFloat 2), (''bottomRightLat'', PFloat 3),
        (''bottomRightLng'', PFloat 4)])]
   \<and> map_of [(''topLeftLng'', PFloat 2), (''bottomRightLat'', PFloat 3),
              (''bottomRightLng'', PFloat 4)] ''topLeftLat'' = None"
  by (simp add: locations_eval unreachable_def)

text \<open>
  Claim C8. When the location endpoint answers the request of \<open>get_locations\<close> with a
  status outside 200 to 299, \<open>get_locations\<close> raises the error of the status check as it
  is, after that one request: no second request, no constructor call, no return value.
\<close>

theorem get_locations_http_error:
  assumes "(url, q) \<in> set (http_requests (snd (get_locations http valid a)))"
    and "http url q = Inr r"
    and "\<not> (200 \<le> status_code r \<and> status_code r < 300)"
  shows "get_locations http valid a = (Inl (HTTPError (status_code r)), [HttpGet url q])
       \<and> raise_for_status r = (Inl (HTTPError (status_code r)), [])
       \<and> url = LOCATION_SERVICE_API_ENDPOINT"
proof -
  from sent_query_expanded [OF assms(1)] obtain ps tr where
    e: "expand_bounding_box (bounding_box a) (initial_params a) = (Inr ps, tr)" and
    q: "q = drop_none ps"
    by blast
  from assms(1) have url: "url = LOCATION_SERVICE_API_ENDPOINT"
    by (simp add: get_locations_requests [OF e])
  have "get_locations http valid a = (Inl (HTTPError (status_code r)), [HttpGet url q])"
    using assms(2,3) by (simp add: get_locations_expand_Inr [OF e] url q)
  moreover have "raise_for_status r = (Inl (HTTPError (status_code r)), [])"
    using assms(3) by (auto simp: raise_for_status_def raises_def)
  ultimately show ?thesis using url by simp
qed

theorem get_locations_http_error_witness:
  "(''https://locationservice.posti.com/location'', [(''zipCode'', PStr ''00120'')])
     \<in> set (http_requests (snd (get_locations
          (answers \<lparr>status_code = 404, json_body = None\<rparr>) accept_all
          (no_args\<lparr>zipcode := PStr ''00120''\<rparr>))))
   \<and> answers \<lparr>status_code = 404, json_body = None\<rparr>
        ''https://locationservice.posti.com/location'' [(''zipCode'', PStr ''00120'')] =
      Inr \<lparr>status_code = 404, json_body = None\<rparr>
   \<and> \<not> (200 \<le> status_code \<lparr>status_code = 404, json_body = None\<rparr> \<and>
          status_code \<lparr>status_code = 404, json_body = None\<rparr> < 300)
   \<and> get_locations (answers \<lparr>status_code = 404, json_body = None\<rparr>) accept_all
        (no_args\<lparr>zipcode := PStr ''00120''\<rparr>) =
      (Inl (HTTPError 404),
       [HttpGet ''https://locationservice.posti.com/location'' [(''zipCode'', PStr ''00120'')]])"
  using get_locations_http_error [of "''https://locationservice.posti.com/location''"
      "[(''zipCode'', PStr ''00120'')]" "answers \<lparr>status_code = 404, json_body = None\<rparr>"
      accept_all "no_args\<lparr>zipcode := PStr ''00120''\<rparr>"
      "\<lparr>status_code = 404, json_body = None\<rparr>"]
  by (simp add: locations_eval answers_def)

text \<open>
  Claim C9. A bounding box that is a list (or a string) of fewer than four elements makes
  \<open>get_locations\<close> raise \<^verbatim>\<open>IndexError\<close> with an empty trace, so before any HTTP request;
  and a list of more than four elements gives the result and the trace of its first four
  elements.
\<close>

theorem get_locations_short_bounding_box:
  "(length xs < 4 \<longrightarrow>
      get_locations http valid (a\<lparr>bounding_box := PList xs\<rparr>) = (Inl IndexError, []))
   \<and> (length s < 4 \<longrightarrow>
      get_locations http valid (a\<lparr>bounding_box := PStr s\<rparr>) = (Inl IndexError, []))
   \<and> get_locations http valid (a\<lparr>bounding_box := PList (b0 # b1 # b2 # b3 # rest)\<rparr>) =
      get_locations http valid (a\<lparr>bounding_box := PList [b0, b1, b2, b3]\<rparr>)"
proof (intro conjI impI)
  assume "length xs < 4"
  then have "expand_bounding_box (bounding_box (a\<lparr>bounding_box := PList xs\<rparr>))
      (initial_params (a\<lparr>bounding_box := PList xs\<rparr>)) = (Inl IndexError, [])"
    by (simp add: expand_bounding_box_short)
  then show "get_locations http valid (a\<lparr>bounding_box := PList xs\<rparr>) = (Inl IndexError, [])"
    by (rule get_locations_expand_Inl)
next
  assume "length s < 4"
  then have "expand_bounding_box (bounding_box (a\<lparr>bounding_box := PStr s\<rparr>))
      (initial_params (a\<lparr>bounding_box := PStr s\<rparr>)) = (Inl IndexError, [])"
    by (simp add: expand_bounding_box_short)
  then show "get_locations http valid (a\<lparr>bounding_box := PStr s\<rparr>) = (Inl IndexError, [])"
    by (rule get_locations_expand_Inl)
next
  show "get_locations http valid (a\<lparr>bounding_box := PList (b0 # b1 # b2 # b3 # rest)\<rparr>) =
      get_locations http valid (a\<lparr>bounding_box := PList [b0, b1, b2, b3]\<rparr>)"
    by (simp add: get_locations_def expand_bounding_box_list4)
qed

theorem get_locations_short_bounding_box_witness:
  "length [PFloat 1, PFloat 2, PFloat 3] < 4
   \<and> get_locations (answers \<lparr>status_code = 200, json_body = Some (PDict [(''locations'', PList [])])\<rparr>)
        accept_all (no_args\<lparr>bounding_box := PList [PFloat 1, PFloat 2, PFloat 3]\<rparr>) =
      (Inl IndexError, [])
   \<and> length ''abc'' < 4
   \<and> get_locations (answers \<lparr>status_code = 200, json_body = Some (PDict [(''locations'', PList [])])\<rparr>)
        accept_all (no_args\<lparr>bounding_box := PStr ''abc''\<rparr>) =
      (Inl IndexError, [])
   \<and> get_locations (answers \<lparr>status_code = 200, json_body = Some (PDict [(''locations'', PList [])])\<rparr>)
        accept_all
        (no_args\<lparr>bounding_box := PList [PFloat 1, PFloat 2, PFloat 3, PFloat 4, PFloat 5]\<rparr>) =
      (Inr (Obj Locations (PList [])),
       [HttpGet ''https://locationservice.posti.com/location''
          [(''topLeftLat'', PFloat 1), (''topLeftLng'', PFloat 2), (''bottomRightLat'', PFloat 3),
           (''bottomRightLng'', PFloat 4)],
        Construct Locations (PList [])])"
  using get_locations_short_bounding_box [of "[PFloat 1, PFloat 2, PFloat 3]"
      "answers \<lparr>status_code = 200, json_body = Some (PDict [(''locations'', PList [])])\<rparr>"
      accept_all no_args "''abc''" "PFloat 1" "PFloat 2" "PFloat 3" "PFloat 4" "[PFloat 5]"]
  by (simp add: locations_eval answers_def accept_all_def)


end
